theory Spec2Isabelle
  imports Main "HOL-Library.Multiset" "HOL-Library.Sublist"
begin

section \<open>Documents\<close>

text \<open>
  The application keeps three collections in a document store: users, profiles
  (model \<^verbatim>\<open>RishtaProfile\<close>, schema in \<^verbatim>\<open>src/unnamed/part_001\<close>) and payments
  (model \<^verbatim>\<open>Payment\<close>, schema in \<^verbatim>\<open>src/unnamed/part_000\<close>). A document is a
  record with the paths of its schema; a collection is the list of its documents in
  insertion order. Object identifiers are natural numbers, dates are integers
  (milliseconds), strings are lists of code units below 256. A path that may be
  \<^verbatim>\<open>undefined\<close> is an \<open>option\<close>.

  Record fields are global names in Isabelle, so the \<^verbatim>\<open>_id\<close> and \<^verbatim>\<open>userId\<close>
  paths carry the name of their document, the paths below \<^verbatim>\<open>preferences\<close>
  that repeat a name of \<^verbatim>\<open>personalInfo\<close> are prefixed, and the payment's
  \<^verbatim>\<open>status\<close>, \<^verbatim>\<open>notes\<close> and \<^verbatim>\<open>createdAt\<close> are \<open>pay_status\<close>,
  \<open>pay_notes\<close> and \<open>pay_createdAt\<close>. The receipt image of a payment is
  left out: no route modelled here touches it.

  Of the paths the store maintains by itself (\<^verbatim>\<open>timestamps: true\<close> and the
  version key), \<^verbatim>\<open>createdAt\<close> is part of the model, because the listings sort by
  it; \<^verbatim>\<open>updatedAt\<close> and \<^verbatim>\<open>__v\<close>, which no route reads, are not. The image
  store is not part of the state: deleting an image there never changes what a
  handler writes or answers. The store itself does not fail: what can fail in
  \<^verbatim>\<open>doc.save()\<close> is the validation of the document against its schema.
\<close>

type_synonym oid = nat
type_synonym date = int

datatype status = Draft | Submitted | Approved | Rejected | Published

datatype pay_status = Pending | Completed | Failed | Cancelled

record photo =
  photo_id :: oid
  url :: string
  publicId :: string
  isPrimary :: bool

record location =
  city :: string
  country :: string

record personal_info =
  name :: string
  age :: int
  gender :: string
  dateOfBirth :: date
  height :: "int option"
  maritalStatus :: string
  location :: location
  nationality :: string

record education =
  level :: string
  edu_field :: "string option"
  institution :: "string option"

record occupation =
  profession :: string
  company :: "string option"
  income :: "string option"

record family_info =
  familyType :: "string option"
  familyStatus :: "string option"
  siblings :: "int option"
  fatherName :: "string option"
  motherName :: "string option"

record religious_info =
  sect :: "string option"
  religiousness :: "string option"
  hijab :: "string option"
  beard :: "string option"

record preferences =
  ageRangeMin :: "int option"
  ageRangeMax :: "int option"
  pref_location :: "string list"
  pref_education :: "string list"
  pref_maritalStatus :: "string list"
  pref_religiousness :: "string list"

record contact_info =
  guardianName :: "string option"
  guardianPhone :: "string option"
  guardianRelation :: "string option"

record profile =
  profile_id :: oid
  userId :: oid
  personalInfo :: personal_info
  education :: education
  occupation :: occupation
  familyInfo :: family_info
  religiousInfo :: religious_info
  photos :: "photo list"
  preferences :: preferences
  about :: "string option"
  expectations :: "string option"
  contactInfo :: contact_info
  status :: status
  published :: bool
  approvedBy :: "oid option"
  approvedAt :: "date option"
  rejectionReason :: "string option"
  views :: nat
  lastViewed :: "date option"
  createdAt :: date

record payment =
  payment_id :: oid
  pay_userId :: oid
  amount :: int
  currency :: string
  paymentMethod :: string
  paymentType :: string
  pay_status :: pay_status
  transactionId :: "string option"
  referenceNumber :: "string option"
  senderNumber :: "string option"
  senderName :: "string option"
  pay_notes :: "string option"
  verifiedBy :: "oid option"
  verifiedAt :: "date option"
  verificationNotes :: "string option"
  pay_createdAt :: date

text \<open>
  Modelled from the spec: the \<^verbatim>\<open>User\<close> model (\<^verbatim>\<open>models/User\<close>) is required by
  the routes but its schema is not among the sources. The spec gives a user the flags
  active, paid, role (\<^verbatim>\<open>user\<close> or \<^verbatim>\<open>admin\<close>) and profile-completed; the routes
  read and write them as \<^verbatim>\<open>isActive\<close>, \<^verbatim>\<open>isPaid\<close>, \<^verbatim>\<open>role\<close> and
  \<^verbatim>\<open>profileCompleted\<close>.
\<close>

record user =
  user_id :: oid
  role :: string
  isPaid :: bool
  isActive :: bool
  profileCompleted :: bool

text \<open>
  \<^verbatim>\<open>req.session.user\<close>, the copy of the user that the login route puts in the
  session.
\<close>

record session_user =
  sess_id :: oid
  sess_role :: string
  sess_isPaid :: bool
  sess_profileCompleted :: bool

text \<open>
  The state a request runs in: the three collections, the next object identifier the
  driver hands out, and the session of the calling client (\<open>None\<close> when nobody is
  logged in).
\<close>

record state =
  users :: "user list"
  profiles :: "profile list"
  payments :: "payment list"
  nextOid :: oid
  session :: "session_user option"

section \<open>Responses\<close>

text \<open>
  A handler answers with a JSON body (status code, \<^verbatim>\<open>success\<close>, \<^verbatim>\<open>message\<close>),
  with a redirect after a flash message, or by rendering a view with a list of error
  messages.
\<close>

datatype flash = Error_msg string | Success_msg string

datatype response =
    Json nat bool string
  | Redirect flash string
  | Render string "string list"

section \<open>Store and schema helpers\<close>

text \<open>
  \<^verbatim>\<open>Model.findById\<close> and \<^verbatim>\<open>Model.findOne\<close> return the first document that
  matches; \<^verbatim>\<open>doc.save()\<close> on a loaded document writes it over the stored document
  with the same \<^verbatim>\<open>_id\<close> (which is there: the handler has just loaded it). A
  new document is appended by its handler.
\<close>

definition findOne :: "('a \<Rightarrow> bool) \<Rightarrow> 'a list \<Rightarrow> 'a option" where
  "findOne P xs = find P xs"

definition findById :: "('a \<Rightarrow> oid) \<Rightarrow> oid \<Rightarrow> 'a list \<Rightarrow> 'a option" where
  "findById key i xs = findOne (\<lambda>x. key x = i) xs"

fun save :: "('a \<Rightarrow> oid) \<Rightarrow> 'a \<Rightarrow> 'a list \<Rightarrow> 'a list" where
  "save key d [] = []"
| "save key d (x # xs) = (if key x = key d then d # xs else x # save key d xs)"

text \<open>
  \<^verbatim>\<open>String.prototype.trim\<close> on code units below 256: tab, line feed, vertical tab,
  form feed, carriage return, space and no-break space are stripped from both ends.
  A schema path declared with \<^verbatim>\<open>trim: true\<close> has this as its setter: the value
  assigned to the path is stored trimmed, \<^verbatim>\<open>undefined\<close> stays \<^verbatim>\<open>undefined\<close>.
\<close>

definition isWhiteSpace :: "char \<Rightarrow> bool" where
  "isWhiteSpace c = (c \<in> set [CHR 0x09, CHR 0x0A, CHR 0x0B, CHR 0x0C, CHR 0x0D, CHR 0x20, CHR 0xA0])"

definition trim :: "string \<Rightarrow> string" where
  "trim s = rev (dropWhile isWhiteSpace (rev (dropWhile isWhiteSpace s)))"

definition trimSetter :: "string option \<Rightarrow> string option" where
  "trimSetter v = map_option trim v"

section \<open>Schema validation\<close>

text \<open>
  \<^verbatim>\<open>doc.save()\<close> first validates the whole document against the validators its
  schema declares; when one of them fails it throws and nothing is written. These
  are the validators of the two schemas: \<^verbatim>\<open>required\<close> on a string asks for a
  non-empty string, \<^verbatim>\<open>enum\<close>, \<^verbatim>\<open>min\<close>, \<^verbatim>\<open>max\<close> and \<^verbatim>\<open>maxlength\<close>
  pass a value that is \<^verbatim>\<open>undefined\<close>. The paths that are always present in
  the model (object identifiers, dates, the age, the amount) meet their
  \<^verbatim>\<open>required\<close>; the status enums are the two datatypes.
\<close>

definition inEnum :: "string list \<Rightarrow> string option \<Rightarrow> bool" where
  "inEnum values v = (case v of None \<Rightarrow> True | Some t \<Rightarrow> t \<in> set values)"

definition inRange :: "int \<Rightarrow> int \<Rightarrow> int option \<Rightarrow> bool" where
  "inRange lo hi v = (case v of None \<Rightarrow> True | Some n \<Rightarrow> lo \<le> n \<and> n \<le> hi)"

definition maxLength :: "nat \<Rightarrow> string option \<Rightarrow> bool" where
  "maxLength n v = (case v of None \<Rightarrow> True | Some t \<Rightarrow> length t \<le> n)"

definition validPhoto :: "photo \<Rightarrow> bool" where
  "validPhoto ph = (url ph \<noteq> [] \<and> publicId ph \<noteq> [])"

definition validPersonalInfo :: "personal_info \<Rightarrow> bool" where
  "validPersonalInfo v =
     (name v \<noteq> [] \<and>
      18 \<le> age v \<and> age v \<le> 80 \<and>
      gender v \<in> set [''male'', ''female''] \<and>
      inRange 120 220 (height v) \<and>
      maritalStatus v \<in> set [''never-married'', ''divorced'', ''widowed''] \<and>
      city (location v) \<noteq> [] \<and>
      country (location v) \<noteq> [])"

definition validEducation :: "education \<Rightarrow> bool" where
  "validEducation v =
     (level v \<in> set [''primary'', ''secondary'', ''bachelor'', ''master'', ''phd'', ''other''])"

definition validOccupation :: "occupation \<Rightarrow> bool" where
  "validOccupation v =
     (profession v \<noteq> [] \<and>
      inEnum [''below-50k'', ''50k-100k'', ''100k-200k'', ''200k-500k'', ''above-500k'',
              ''prefer-not-to-say''] (income v))"

definition validFamilyInfo :: "family_info \<Rightarrow> bool" where
  "validFamilyInfo v =
     (inEnum [''joint'', ''nuclear'', ''extended''] (familyType v) \<and>
      inEnum [''middle-class'', ''upper-middle'', ''upper-class'', ''prefer-not-to-say''] (familyStatus v) \<and>
      (case siblings v of None \<Rightarrow> True | Some n \<Rightarrow> 0 \<le> n))"

definition validReligiousInfo :: "religious_info \<Rightarrow> bool" where
  "validReligiousInfo v =
     (inEnum [''sunni'', ''shia'', ''other''] (sect v) \<and>
      inEnum [''very-religious'', ''moderately-religious'', ''somewhat-religious'',
              ''not-very-religious''] (religiousness v) \<and>
      inEnum [''yes'', ''no'', ''sometimes''] (hijab v) \<and>
      inEnum [''yes'', ''no'', ''sometimes''] (beard v))"

definition validPreferences :: "preferences \<Rightarrow> bool" where
  "validPreferences v =
     (inRange 18 80 (ageRangeMin v) \<and>
      inRange 18 80 (ageRangeMax v) \<and>
      list_all (\<lambda>t. t \<in> set [''primary'', ''secondary'', ''bachelor'', ''master'', ''phd'', ''any''])
        (pref_education v) \<and>
      list_all (\<lambda>t. t \<in> set [''never-married'', ''divorced'', ''widowed'', ''any''])
        (pref_maritalStatus v) \<and>
      list_all (\<lambda>t. t \<in> set [''very-religious'', ''moderately-religious'', ''somewhat-religious'',
                              ''not-very-religious'', ''any''])
        (pref_religiousness v))"

definition validProfile :: "profile \<Rightarrow> bool" where
  "validProfile p =
     (validPersonalInfo (personalInfo p) \<and>
      validEducation (education p) \<and>
      validOccupation (occupation p) \<and>
      validFamilyInfo (familyInfo p) \<and>
      validReligiousInfo (religiousInfo p) \<and>
      list_all validPhoto (photos p) \<and>
      validPreferences (preferences p) \<and>
      maxLength 1000 (about p) \<and>
      maxLength 500 (expectations p))"

definition validPayment :: "payment \<Rightarrow> bool" where
  "validPayment p =
     (0 \<le> amount p \<and>
      paymentMethod p \<in> set [''easypaisa'', ''jazzcash'', ''bank-transfer'', ''cash''] \<and>
      paymentType p \<in> set [''registration'', ''international'', ''premium'', ''other''] \<and>
      maxLength 500 (pay_notes p))"

section \<open>Middleware (middleware/auth.js)\<close>

text \<open>
  A middleware either answers itself or calls \<^verbatim>\<open>next()\<close>: the rest of the
  route is its last argument. \<open>isAuthenticated\<close> passes \<^verbatim>\<open>req.session.user\<close>
  on to the handler, which reads it again.
\<close>

definition isAuthenticated :: "state \<Rightarrow> (session_user \<Rightarrow> response \<times> state) \<Rightarrow> response \<times> state" where
  "isAuthenticated s next =
     (case session s of
        Some u \<Rightarrow> next u
      | None \<Rightarrow> (Redirect (Error_msg ''Please log in to access this page'') ''/auth/login'', s))"

definition isAdmin :: "state \<Rightarrow> response \<times> state \<Rightarrow> response \<times> state" where
  "isAdmin s next =
     (case session s of
        Some u \<Rightarrow>
          if sess_role u = ''admin'' then next
          else (Redirect (Error_msg ''Access denied. Admin privileges required.'') ''/'', s)
      | None \<Rightarrow> (Redirect (Error_msg ''Access denied. Admin privileges required.'') ''/'', s))"

definition hasPaid :: "state \<Rightarrow> response \<times> state \<Rightarrow> response \<times> state" where
  "hasPaid s next =
     (case session s of
        None \<Rightarrow> (Redirect (Error_msg ''Please log in to access this page'') ''/auth/login'', s)
      | Some u \<Rightarrow>
          (case findById user_id (sess_id u) (users s) of
             None \<Rightarrow> (Redirect (Error_msg ''User not found'') ''/auth/login'', s\<lparr>session := None\<rparr>)
           | Some usr \<Rightarrow>
               if \<not> isPaid usr
               then (Redirect (Error_msg ''Please complete payment to access this feature'') ''/payments'', s)
               else next))"

section \<open>Administrator routes: review and publication (src/unnamed/part_003)\<close>

text \<open>
  The body of \<^verbatim>\<open>POST /profiles/:id/review\<close>. \<open>action\<close> and \<open>reason\<close> are
  \<^verbatim>\<open>req.body.action\<close> and \<^verbatim>\<open>req.body.rejectionReason\<close>; the \<^verbatim>\<open>:id\<close>
  parameter is \<open>None\<close> when it does not cast to an object identifier, in which case
  \<^verbatim>\<open>findById\<close> throws and the \<^verbatim>\<open>catch\<close> block answers 500. \<open>now\<close> is the value
  of \<^verbatim>\<open>new Date()\<close>, \<open>u\<close> is \<^verbatim>\<open>req.session.user\<close>. The schema declares
  \<^verbatim>\<open>rejectionReason\<close> with \<^verbatim>\<open>trim: true\<close>, so both assignments to it go
  through the setter. \<^verbatim>\<open>profile.save()\<close> validates the document; when that
  throws, the \<^verbatim>\<open>catch\<close> block answers 500 and nothing is written.
\<close>

record review_body =
  action :: "string option"
  reason :: "string option"

text \<open>What a template literal prints for a value that is a string or \<^verbatim>\<open>undefined\<close>.\<close>

definition asText :: "string option \<Rightarrow> string" where
  "asText a = (case a of None \<Rightarrow> ''undefined'' | Some t \<Rightarrow> t)"

definition serverError :: response where
  "serverError = Json 500 False ''An error occurred''"

definition reviewHandler :: "date \<Rightarrow> oid option \<Rightarrow> review_body \<Rightarrow> session_user \<Rightarrow> state \<Rightarrow> response \<times> state" where
  "reviewHandler now pid body u s =
     (case pid of
        None \<Rightarrow> (serverError, s)
      | Some i \<Rightarrow>
          (case findById profile_id i (profiles s) of
             None \<Rightarrow> (Json 404 False ''Profile not found'', s)
           | Some p \<Rightarrow>
               let p' =
                 (if action body = Some ''approve'' then
                    p\<lparr>status := Approved, published := True, approvedBy := Some (sess_id u),
                      approvedAt := Some now, rejectionReason := trimSetter None\<rparr>
                  else if action body = Some ''reject'' then
                    p\<lparr>status := Rejected, published := False,
                      rejectionReason := trimSetter (reason body),
                      approvedBy := Some (sess_id u), approvedAt := Some now\<rparr>
                  else p)
               in if \<not> validProfile p' then (serverError, s)
                  else (Json 200 True (''Profile '' @ asText (action body) @ ''d successfully''),
                        s\<lparr>profiles := save profile_id p' (profiles s)\<rparr>)))"

definition reviewProfile :: "date \<Rightarrow> oid option \<Rightarrow> review_body \<Rightarrow> state \<Rightarrow> response \<times> state" where
  "reviewProfile now pid body s =
     isAuthenticated s (\<lambda>u. isAdmin s (reviewHandler now pid body u s))"

text \<open>The body of \<^verbatim>\<open>POST /profiles/:id/publish\<close>.\<close>

definition publishHandler :: "oid option \<Rightarrow> state \<Rightarrow> response \<times> state" where
  "publishHandler pid s =
     (case pid of
        None \<Rightarrow> (serverError, s)
      | Some i \<Rightarrow>
          (case findById profile_id i (profiles s) of
             None \<Rightarrow> (Json 404 False ''Profile not found'', s)
           | Some p \<Rightarrow>
               if status p \<noteq> Approved
               then (Json 400 False ''Only approved profiles can be published'', s)
               else
                 let p' = p\<lparr>published := \<not> published p\<rparr>
                 in if \<not> validProfile p' then (serverError, s)
                    else (Json 200 True
                            (''Profile '' @ (if published p' then ''published'' else ''unpublished'') @ '' successfully''),
                          s\<lparr>profiles := save profile_id p' (profiles s)\<rparr>)))"

definition togglePublish :: "oid option \<Rightarrow> state \<Rightarrow> response \<times> state" where
  "togglePublish pid s = isAuthenticated s (\<lambda>u. isAdmin s (publishHandler pid s))"

section \<open>Owner routes: create, edit and photos (src/unnamed/part_002)\<close>

text \<open>
  What \<^verbatim>\<open>POST /profiles/create\<close> and \<^verbatim>\<open>POST /profiles/edit\<close> take from the
  request: the messages of \<^verbatim>\<open>validationResult(req)\<close>, the uploaded files
  (\<^verbatim>\<open>req.files\<close>, as the upload middleware left them), and the nine values the
  handler builds from \<^verbatim>\<open>req.body\<close> for the descriptive paths. \<open>raises\<close> says
  that building them throws (a part of the body is missing, or a number is
  \<^verbatim>\<open>NaN\<close> and does not cast). That, like a document that fails validation in
  \<^verbatim>\<open>profile.save()\<close>, sends the handler to its \<^verbatim>\<open>catch\<close> block before
  anything is written.
\<close>

record upload =
  path :: string
  filename :: string

record profile_form =
  errors :: "string list"
  files :: "upload list"
  body_personalInfo :: personal_info
  body_education :: education
  body_occupation :: occupation
  body_familyInfo :: family_info
  body_religiousInfo :: religious_info
  body_preferences :: preferences
  body_about :: "string option"
  body_expectations :: "string option"
  body_contactInfo :: contact_info
  raises :: bool

text \<open>The setters of the descriptive paths: the schema trims these strings.\<close>

definition setPersonalInfo :: "personal_info \<Rightarrow> personal_info" where
  "setPersonalInfo v = v\<lparr>name := trim (name v)\<rparr>"

definition setEducation :: "education \<Rightarrow> education" where
  "setEducation v = v\<lparr>edu_field := trimSetter (edu_field v), institution := trimSetter (institution v)\<rparr>"

definition setOccupation :: "occupation \<Rightarrow> occupation" where
  "setOccupation v = v\<lparr>profession := trim (profession v), company := trimSetter (company v)\<rparr>"

definition setFamilyInfo :: "family_info \<Rightarrow> family_info" where
  "setFamilyInfo v = v\<lparr>fatherName := trimSetter (fatherName v), motherName := trimSetter (motherName v)\<rparr>"

definition setPreferences :: "preferences \<Rightarrow> preferences" where
  "setPreferences v = v\<lparr>pref_location := map trim (pref_location v)\<rparr>"

definition setContactInfo :: "contact_info \<Rightarrow> contact_info" where
  "setContactInfo v =
     v\<lparr>guardianName := trimSetter (guardianName v), guardianPhone := trimSetter (guardianPhone v),
       guardianRelation := trimSetter (guardianRelation v)\<rparr>"

text \<open>
  The \<^verbatim>\<open>forEach\<close> over \<^verbatim>\<open>req.files\<close>: one photo per file, with a fresh
  \<^verbatim>\<open>_id\<close>; the photo of index 0 is primary when \<open>first\<close> holds (always on
  creation, on edit when the profile has no photo yet).
\<close>

definition newPhotos :: "oid \<Rightarrow> bool \<Rightarrow> upload list \<Rightarrow> photo list" where
  "newPhotos base first fs =
     map (\<lambda>(index, file).
            \<lparr>photo_id = base + index, url = path file, publicId = filename file,
             isPrimary = (first \<and> index = 0)\<rparr>)
         (enumerate 0 fs)"

definition createFailed :: string where
  "createFailed = ''An error occurred while creating your profile. Please try again.''"

definition createHandler :: "date \<Rightarrow> profile_form \<Rightarrow> session_user \<Rightarrow> state \<Rightarrow> response \<times> state" where
  "createHandler now form u s =
     (if errors form \<noteq> [] then (Render ''profiles/create'' (errors form), s)
      else
        (case findOne (\<lambda>p. userId p = sess_id u) (profiles s) of
           Some existingProfile \<Rightarrow>
             (Redirect (Error_msg ''You already have a profile. You can edit it instead.'') ''/profiles/edit'', s)
         | None \<Rightarrow>
             if raises form then (Render ''profiles/create'' [createFailed], s)
             else
               let profile =
                 \<lparr>profile_id = nextOid s,
                  userId = sess_id u,
                  personalInfo = setPersonalInfo (body_personalInfo form),
                  education = setEducation (body_education form),
                  occupation = setOccupation (body_occupation form),
                  familyInfo = setFamilyInfo (body_familyInfo form),
                  religiousInfo = body_religiousInfo form,
                  photos = newPhotos (nextOid s + 1) True (files form),
                  preferences = setPreferences (body_preferences form),
                  about = trimSetter (body_about form),
                  expectations = trimSetter (body_expectations form),
                  contactInfo = setContactInfo (body_contactInfo form),
                  status = Submitted,
                  published = False,
                  approvedBy = None,
                  approvedAt = None,
                  rejectionReason = None,
                  views = 0,
                  lastViewed = None,
                  createdAt = now\<rparr>
               in if \<not> validProfile profile then (Render ''profiles/create'' [createFailed], s)
                  else
                    (Redirect (Success_msg ''Profile created successfully! It will be reviewed by our team before publishing.'')
                       ''/profiles/dashboard'',
                     s\<lparr>profiles := profiles s @ [profile],
                       users :=
                         (case findById user_id (sess_id u) (users s) of
                            None \<Rightarrow> users s
                          | Some usr \<Rightarrow> save user_id (usr\<lparr>profileCompleted := True\<rparr>) (users s)),
                       nextOid := nextOid s + 1 + length (files form),
                       session := Some (u\<lparr>sess_profileCompleted := True\<rparr>)\<rparr>)))"

definition createProfile :: "date \<Rightarrow> profile_form \<Rightarrow> state \<Rightarrow> response \<times> state" where
  "createProfile now form s = isAuthenticated s (\<lambda>u. hasPaid s (createHandler now form u s))"

definition editFailed :: string where
  "editFailed = ''An error occurred while updating your profile. Please try again.''"

definition editHandler :: "profile_form \<Rightarrow> session_user \<Rightarrow> state \<Rightarrow> response \<times> state" where
  "editHandler form u s =
     (if errors form \<noteq> [] then (Render ''profiles/edit'' (errors form), s)
      else
        (case findOne (\<lambda>p. userId p = sess_id u) (profiles s) of
           None \<Rightarrow>
             (Redirect (Error_msg ''No profile found. Please create a profile first.'') ''/profiles/create'', s)
         | Some profile \<Rightarrow>
             if raises form then (Render ''profiles/edit'' [editFailed], s)
             else
               let new = newPhotos (nextOid s) (length (photos profile) = 0) (files form);
                   profile' = profile
                     \<lparr>personalInfo := setPersonalInfo (body_personalInfo form),
                      education := setEducation (body_education form),
                      occupation := setOccupation (body_occupation form),
                      familyInfo := setFamilyInfo (body_familyInfo form),
                      religiousInfo := body_religiousInfo form,
                      photos := (if length new > 0 then photos profile @ new else photos profile),
                      preferences := setPreferences (body_preferences form),
                      about := trimSetter (body_about form),
                      expectations := trimSetter (body_expectations form),
                      contactInfo := setContactInfo (body_contactInfo form),
                      status := Submitted,
                      published := False\<rparr>
               in if \<not> validProfile profile' then (Render ''profiles/edit'' [editFailed], s)
                  else
                    (Redirect (Success_msg ''Profile updated successfully! It will be reviewed by our team before publishing.'')
                       ''/profiles/dashboard'',
                     s\<lparr>profiles := save profile_id profile' (profiles s),
                       nextOid := nextOid s + length (files form)\<rparr>)))"

definition editProfile :: "profile_form \<Rightarrow> state \<Rightarrow> response \<times> state" where
  "editProfile form s = isAuthenticated s (\<lambda>u. hasPaid s (editHandler form u s))"

text \<open>
  \<^verbatim>\<open>photos.id(x)\<close> is the first photo whose \<^verbatim>\<open>_id\<close> is \<open>x\<close>, or \<^verbatim>\<open>null\<close>;
  \<^verbatim>\<open>photos.pull(x)\<close> removes the photos with that \<^verbatim>\<open>_id\<close>. A \<^verbatim>\<open>:photoId\<close>
  that does not cast to an object identifier (\<open>None\<close>) equals no \<^verbatim>\<open>_id\<close>.
\<close>

definition photosId :: "oid option \<Rightarrow> photo list \<Rightarrow> photo option" where
  "photosId x phs = (case x of None \<Rightarrow> None | Some i \<Rightarrow> findById photo_id i phs)"

definition photosPull :: "oid option \<Rightarrow> photo list \<Rightarrow> photo list" where
  "photosPull x phs = (case x of None \<Rightarrow> phs | Some i \<Rightarrow> filter (\<lambda>ph. photo_id ph \<noteq> i) phs)"

definition deletePhotoHandler :: "oid option \<Rightarrow> session_user \<Rightarrow> state \<Rightarrow> response \<times> state" where
  "deletePhotoHandler photoId u s =
     (case findOne (\<lambda>p. userId p = sess_id u) (profiles s) of
        None \<Rightarrow> (Json 404 False ''Profile not found'', s)
      | Some profile \<Rightarrow>
          (case photosId photoId (photos profile) of
             None \<Rightarrow> (Json 404 False ''Photo not found'', s)
           | Some photo \<Rightarrow>
               let profile' = profile\<lparr>photos := photosPull photoId (photos profile)\<rparr>
               in if \<not> validProfile profile' then (serverError, s)
                  else (Json 200 True ''Photo deleted successfully'',
                        s\<lparr>profiles := save profile_id profile' (profiles s)\<rparr>)))"

definition removePhoto :: "oid option \<Rightarrow> state \<Rightarrow> response \<times> state" where
  "removePhoto photoId s = isAuthenticated s (\<lambda>u. hasPaid s (deletePhotoHandler photoId u s))"

text \<open>
  \<^verbatim>\<open>PUT /photo/:photoId/primary\<close>: every photo is reset, then the photo found by
  \<^verbatim>\<open>photos.id\<close>, if there is one, is marked; the profile is saved and, unless
  the save throws, the answer is a success in both cases.
\<close>

definition resetPrimary :: "photo list \<Rightarrow> photo list" where
  "resetPrimary phs = map (\<lambda>photo. photo\<lparr>isPrimary := False\<rparr>) phs"

fun markPrimary :: "oid \<Rightarrow> photo list \<Rightarrow> photo list" where
  "markPrimary i [] = []"
| "markPrimary i (ph # phs) =
     (if photo_id ph = i then ph\<lparr>isPrimary := True\<rparr> # phs else ph # markPrimary i phs)"

definition setSelectedPrimary :: "oid option \<Rightarrow> photo list \<Rightarrow> photo list" where
  "setSelectedPrimary x phs =
     (case photosId x phs of None \<Rightarrow> phs | Some photo \<Rightarrow> markPrimary (photo_id photo) phs)"

definition setPrimaryHandler :: "oid option \<Rightarrow> session_user \<Rightarrow> state \<Rightarrow> response \<times> state" where
  "setPrimaryHandler photoId u s =
     (case findOne (\<lambda>p. userId p = sess_id u) (profiles s) of
        None \<Rightarrow> (Json 404 False ''Profile not found'', s)
      | Some profile \<Rightarrow>
          let profile' = profile\<lparr>photos := setSelectedPrimary photoId (resetPrimary (photos profile))\<rparr>
          in if \<not> validProfile profile' then (serverError, s)
             else (Json 200 True ''Primary photo updated successfully'',
                   s\<lparr>profiles := save profile_id profile' (profiles s)\<rparr>))"

definition setPrimaryPhoto :: "oid option \<Rightarrow> state \<Rightarrow> response \<times> state" where
  "setPrimaryPhoto photoId s = isAuthenticated s (\<lambda>u. hasPaid s (setPrimaryHandler photoId u s))"

section \<open>Payment routes: verification and cancellation (src/routes/auth.js)\<close>

text \<open>
  \<^verbatim>\<open>POST /payments/admin/verify/:id\<close>. \<open>verify_status\<close> and \<open>verify_notes\<close> are
  \<^verbatim>\<open>req.body.status\<close> and \<^verbatim>\<open>req.body.verificationNotes\<close>. The handler never
  looks at the status the payment has. For a completed payment it saves the owning
  user first, then the payment; either save validates and may throw, which ends
  the handler with the answer 500 and leaves what was written before. The schema
  of the user is not among the sources, so whether a user passes its validation
  is the parameter \<open>validUser\<close>.
\<close>

record verify_body =
  verify_status :: "string option"
  verify_notes :: "string option"

definition requestedStatus :: "string option \<Rightarrow> pay_status option" where
  "requestedStatus t =
     (if t = Some ''completed'' then Some Completed
      else if t = Some ''failed'' then Some Failed
      else if t = Some ''cancelled'' then Some Cancelled
      else None)"

definition verifyHandler ::
  "(user \<Rightarrow> bool) \<Rightarrow> date \<Rightarrow> oid option \<Rightarrow> verify_body \<Rightarrow> session_user \<Rightarrow> state \<Rightarrow> response \<times> state" where
  "verifyHandler validUser now pid body u s =
     (case pid of
        None \<Rightarrow> (serverError, s)
      | Some i \<Rightarrow>
          (case findById payment_id i (payments s) of
             None \<Rightarrow> (Json 404 False ''Payment not found'', s)
           | Some payment \<Rightarrow>
               (case requestedStatus (verify_status body) of
                  None \<Rightarrow> (Json 400 False ''Invalid status'', s)
                | Some st \<Rightarrow>
                    let payment' = payment
                          \<lparr>pay_status := st, verifiedBy := Some (sess_id u), verifiedAt := Some now,
                           verificationNotes := trimSetter (verify_notes body)\<rparr>;
                        owner = (if st = Completed then findById user_id (pay_userId payment) (users s) else None)
                    in (case owner of
                          Some usr \<Rightarrow>
                            if \<not> validUser (usr\<lparr>isPaid := True\<rparr>) then (serverError, s)
                            else if \<not> validPayment payment'
                            then (serverError, s\<lparr>users := save user_id (usr\<lparr>isPaid := True\<rparr>) (users s)\<rparr>)
                            else (Json 200 True (''Payment '' @ asText (verify_status body) @ '' successfully''),
                                  s\<lparr>users := save user_id (usr\<lparr>isPaid := True\<rparr>) (users s),
                                    payments := save payment_id payment' (payments s)\<rparr>)
                        | None \<Rightarrow>
                            if \<not> validPayment payment' then (serverError, s)
                            else (Json 200 True (''Payment '' @ asText (verify_status body) @ '' successfully''),
                                  s\<lparr>payments := save payment_id payment' (payments s)\<rparr>)))))"

definition verifyPayment ::
  "(user \<Rightarrow> bool) \<Rightarrow> date \<Rightarrow> oid option \<Rightarrow> verify_body \<Rightarrow> state \<Rightarrow> response \<times> state" where
  "verifyPayment validUser now pid body s =
     isAuthenticated s (\<lambda>u. isAdmin s (verifyHandler validUser now pid body u s))"

text \<open>
  \<^verbatim>\<open>POST /payments/cancel/:id\<close>: the query itself asks for a payment of the caller
  that is still pending.
\<close>

definition cancelHandler :: "oid option \<Rightarrow> session_user \<Rightarrow> state \<Rightarrow> response \<times> state" where
  "cancelHandler pid u s =
     (case pid of
        None \<Rightarrow> (serverError, s)
      | Some i \<Rightarrow>
          (case findOne (\<lambda>p. payment_id p = i \<and> pay_userId p = sess_id u \<and> pay_status p = Pending)
                  (payments s) of
             None \<Rightarrow> (Json 404 False ''Payment not found or cannot be cancelled'', s)
           | Some payment \<Rightarrow>
               let payment' = payment\<lparr>pay_status := Cancelled\<rparr>
               in if \<not> validPayment payment' then (serverError, s)
                  else (Json 200 True ''Payment cancelled successfully'',
                        s\<lparr>payments := save payment_id payment' (payments s)\<rparr>)))"

definition cancelPayment :: "oid option \<Rightarrow> state \<Rightarrow> response \<times> state" where
  "cancelPayment pid s = isAuthenticated s (\<lambda>u. cancelHandler pid u s)"

section \<open>Public browsing (src/routes/auth.js)\<close>

text \<open>
  \<^verbatim>\<open>GET /browse\<close>. A query parameter, where present, is what the query parser of
  express makes of it: a string, an array or an object. \<^verbatim>\<open>parseInt\<close> and
  \<^verbatim>\<open>new RegExp\<close> first turn their argument into a string, as \<open>toStringJS\<close>
  does.
\<close>

datatype query_value =
    QString string
  | QArray "query_value list"
  | QObject "(string \<times> query_value) list"

fun joinComma :: "string list \<Rightarrow> string" where
  "joinComma [] = []"
| "joinComma [t] = t"
| "joinComma (t # ts) = t @ '','' @ joinComma ts"

fun toStringJS :: "query_value \<Rightarrow> string" where
  "toStringJS (QString t) = t"
| "toStringJS (QArray vs) = joinComma (map toStringJS vs)"
| "toStringJS (QObject kvs) = ''[object Object]''"

definition truthy :: "query_value \<Rightarrow> bool" where
  "truthy v = (case v of QString t \<Rightarrow> t \<noteq> [] | QArray vs \<Rightarrow> True | QObject kvs \<Rightarrow> True)"

record browse_query =
  query_page :: "query_value option"
  query_gender :: "query_value option"
  query_city :: "query_value option"
  query_minAge :: "query_value option"
  query_maxAge :: "query_value option"

text \<open>
  The handler relies on the JavaScript runtime and on the store. The model fixes
  what they do on plain input and takes the rest as parameters:
  \<^item> \<^verbatim>\<open>parseInt\<close> is \<^verbatim>\<open>NaN\<close> (\<open>None\<close>) on the empty string and the decimal value
    on a string of one to fifteen decimal digits (such a value is exact as a
    JavaScript number); on every other string it is \<open>otherParseInt\<close>;
  \<^item> \<^verbatim>\<open>new RegExp(c, 'i')\<close>, for a pattern \<open>c\<close> of ASCII letters, digits and
    spaces, finds \<open>c\<close> anywhere in a string, letters compared without case; for
    every other pattern it is \<open>otherRegExp\<close>, \<open>None\<close> when the constructor or
    the store refuses the pattern;
  \<^item> a gender that is not a string is put into the filter as it is;
    \<open>otherCondition\<close> says what the store makes of it as a condition on a
    string, \<open>None\<close> when it refuses;
  \<^item> \<open>negativeSkip\<close> is what the store returns for a negative \<^verbatim>\<open>skip\<close> on the
    listed documents, \<open>None\<close> when it refuses.
  Wherever one of them throws or refuses, the \<^verbatim>\<open>catch\<close> block of the handler
  renders an empty list. The model returns the \<^verbatim>\<open>profiles\<close> given to the view.
\<close>

record runtime =
  otherParseInt :: "string \<Rightarrow> int option"
  otherRegExp :: "string \<Rightarrow> (string \<Rightarrow> bool) option"
  otherCondition :: "query_value \<Rightarrow> (string \<Rightarrow> bool) option"
  negativeSkip :: "int \<Rightarrow> profile list \<Rightarrow> profile list option"

definition isDigit :: "char \<Rightarrow> bool" where
  "isDigit c = (48 \<le> (of_char c :: nat) \<and> (of_char c :: nat) \<le> 57)"

definition isUpper :: "char \<Rightarrow> bool" where
  "isUpper c = (65 \<le> (of_char c :: nat) \<and> (of_char c :: nat) \<le> 90)"

definition isLower :: "char \<Rightarrow> bool" where
  "isLower c = (97 \<le> (of_char c :: nat) \<and> (of_char c :: nat) \<le> 122)"

definition digitValue :: "char \<Rightarrow> int" where
  "digitValue c = int (of_char c) - 48"

definition decimalNumeral :: "string \<Rightarrow> bool" where
  "decimalNumeral t = (t \<noteq> [] \<and> length t \<le> 15 \<and> list_all isDigit t)"

definition decimalValue :: "string \<Rightarrow> int" where
  "decimalValue t = foldl (\<lambda>n c. 10 * n + digitValue c) 0 t"

definition parseInt :: "runtime \<Rightarrow> string \<Rightarrow> int option" where
  "parseInt rt t =
     (if t = [] then None
      else if decimalNumeral t then Some (decimalValue t)
      else otherParseInt rt t)"

definition plainPattern :: "string \<Rightarrow> bool" where
  "plainPattern c = (c \<noteq> [] \<and> list_all (\<lambda>x. isUpper x \<or> isLower x \<or> isDigit x \<or> x = CHR '' '') c)"

definition lower :: "char \<Rightarrow> char" where
  "lower c = (if isUpper c then char_of (of_char c + (32 :: nat)) else c)"

fun startsWith :: "string \<Rightarrow> string \<Rightarrow> bool" where
  "startsWith [] t = True"
| "startsWith (c # cs) [] = False"
| "startsWith (c # cs) (x # xs) = (c = x \<and> startsWith cs xs)"

fun search :: "string \<Rightarrow> string \<Rightarrow> bool" where
  "search c [] = startsWith c []"
| "search c (x # xs) = (startsWith c (x # xs) \<or> search c xs)"

definition regExpI :: "runtime \<Rightarrow> string \<Rightarrow> (string \<Rightarrow> bool) option" where
  "regExpI rt c =
     (if plainPattern c then Some (\<lambda>t. search (map lower c) (map lower t))
      else otherRegExp rt c)"

definition browsePage :: "runtime \<Rightarrow> browse_query \<Rightarrow> int" where
  "browsePage rt q =
     (case query_page q of
        None \<Rightarrow> 1
      | Some v \<Rightarrow> (case parseInt rt (toStringJS v) of None \<Rightarrow> 1 | Some n \<Rightarrow> if n = 0 then 1 else n))"

definition genderFilter :: "runtime \<Rightarrow> browse_query \<Rightarrow> (profile \<Rightarrow> bool) option" where
  "genderFilter rt q =
     (case query_gender q of
        None \<Rightarrow> Some (\<lambda>p. True)
      | Some (QString g) \<Rightarrow>
          if g = [] then Some (\<lambda>p. True) else Some (\<lambda>p. gender (personalInfo p) = g)
      | Some v \<Rightarrow>
          (case otherCondition rt v of
             None \<Rightarrow> None
           | Some cond \<Rightarrow> Some (\<lambda>p. cond (gender (personalInfo p)))))"

definition cityFilter :: "runtime \<Rightarrow> browse_query \<Rightarrow> (profile \<Rightarrow> bool) option" where
  "cityFilter rt q =
     (case query_city q of
        None \<Rightarrow> Some (\<lambda>p. True)
      | Some v \<Rightarrow>
          if \<not> truthy v then Some (\<lambda>p. True)
          else
            (case regExpI rt (toStringJS v) of
               None \<Rightarrow> None
             | Some test \<Rightarrow> Some (\<lambda>p. test (city (location (personalInfo p))))))"

definition ageBound :: "runtime \<Rightarrow> query_value option \<Rightarrow> (int \<Rightarrow> int \<Rightarrow> bool) \<Rightarrow> (profile \<Rightarrow> bool) option" where
  "ageBound rt v cmp =
     (case v of
        None \<Rightarrow> Some (\<lambda>p. True)
      | Some w \<Rightarrow>
          if \<not> truthy w then Some (\<lambda>p. True)
          else
            (case parseInt rt (toStringJS w) of
               None \<Rightarrow> None
             | Some n \<Rightarrow> Some (\<lambda>p. cmp (age (personalInfo p)) n)))"

definition browseFilter :: "runtime \<Rightarrow> browse_query \<Rightarrow> (profile \<Rightarrow> bool) option" where
  "browseFilter rt q =
     (case genderFilter rt q of
        None \<Rightarrow> None
      | Some genderOk \<Rightarrow>
          (case cityFilter rt q of
             None \<Rightarrow> None
           | Some cityOk \<Rightarrow>
               (case ageBound rt (query_minAge q) (\<lambda>a n. a \<ge> n) of
                  None \<Rightarrow> None
                | Some minOk \<Rightarrow>
                    (case ageBound rt (query_maxAge q) (\<lambda>a n. a \<le> n) of
                       None \<Rightarrow> None
                     | Some maxOk \<Rightarrow>
                         Some (\<lambda>p. published p \<and> status p = Approved \<and> genderOk p
                                   \<and> cityOk p \<and> minOk p \<and> maxOk p)))))"

definition newestFirst :: "profile list \<Rightarrow> profile list" where
  "newestFirst ps = sort_key (\<lambda>p. - createdAt p) ps"

definition browse :: "runtime \<Rightarrow> browse_query \<Rightarrow> state \<Rightarrow> profile list" where
  "browse rt q s =
     (let page = browsePage rt q;
          limit = 12;
          skip = (page - 1) * limit
      in case browseFilter rt q of
           None \<Rightarrow> []
         | Some matches \<Rightarrow>
             let listed = newestFirst (filter matches (profiles s))
             in if 0 \<le> skip then take (nat limit) (drop (nat skip) listed)
                else (case negativeSkip rt skip listed of
                        None \<Rightarrow> []
                      | Some ps \<Rightarrow> take (nat limit) ps))"

section \<open>What the browse page is to show\<close>

text \<open>
  The claim about browsing, stated apart from the handler. The criteria of a
  visitor are an optional gender, an optional city text and optional age bounds. A
  profile is \<open>visible\<close> under them when it is published and approved and meets
  each criterion that is given: the gender by equality, the city by containing the
  text, letters compared without case, the age by the inclusive bounds. A query
  \<open>asks\<close> for criteria and page \<open>k\<close> when each parameter is the text of the
  criterion (numbers in decimal), a criterion not given being absent or empty;
  page 1 is also asked for by no page, an empty page or the page \<^verbatim>\<open>0\<close>.
\<close>

record criteria =
  wantGender :: "string option"
  wantCity :: "string option"
  wantMinAge :: "nat option"
  wantMaxAge :: "nat option"

definition visible :: "criteria \<Rightarrow> profile \<Rightarrow> bool" where
  "visible c p =
     (published p \<and> status p = Approved \<and>
      (case wantGender c of None \<Rightarrow> True | Some g \<Rightarrow> gender (personalInfo p) = g) \<and>
      (case wantCity c of
         None \<Rightarrow> True
       | Some t \<Rightarrow> sublist (map lower t) (map lower (city (location (personalInfo p))))) \<and>
      (case wantMinAge c of None \<Rightarrow> True | Some n \<Rightarrow> int n \<le> age (personalInfo p)) \<and>
      (case wantMaxAge c of None \<Rightarrow> True | Some n \<Rightarrow> age (personalInfo p) \<le> int n))"

fun decimal :: "nat \<Rightarrow> string" where
  "decimal n =
     (if n < 10 then [char_of (48 + n)]
      else decimal (n div 10) @ [char_of (48 + n mod 10)])"

declare decimal.simps [simp del]

definition asksText :: "query_value option \<Rightarrow> string option \<Rightarrow> bool" where
  "asksText v w =
     (case w of
        None \<Rightarrow> v = None \<or> v = Some (QString [])
      | Some t \<Rightarrow> t \<noteq> [] \<and> v = Some (QString t))"

definition asksNumber :: "query_value option \<Rightarrow> nat option \<Rightarrow> bool" where
  "asksNumber v w =
     (case w of
        None \<Rightarrow> v = None \<or> v = Some (QString [])
      | Some n \<Rightarrow> v = Some (QString (decimal n)))"

definition asksPage :: "query_value option \<Rightarrow> nat \<Rightarrow> bool" where
  "asksPage v k =
     (v = Some (QString (decimal k)) \<or>
      (k = 1 \<and> (v = None \<or> v = Some (QString []) \<or> v = Some (QString ''0''))))"

definition asks :: "browse_query \<Rightarrow> criteria \<Rightarrow> nat \<Rightarrow> bool" where
  "asks q c k =
     (asksText (query_gender q) (wantGender c) \<and>
      asksText (query_city q) (wantCity c) \<and>
      asksNumber (query_minAge q) (wantMinAge c) \<and>
      asksNumber (query_maxAge q) (wantMaxAge c) \<and>
      asksPage (query_page q) k)"

definition lettersDigitsSpaces :: "string \<Rightarrow> bool" where
  "lettersDigitsSpaces t =
     (set t \<subseteq> set ''abcdefghijklmnopqrstuvwxyzABCDEFGHIJKLMNOPQRSTUVWXYZ0123456789 '')"

definition newestFirstOrder :: "profile list \<Rightarrow> bool" where
  "newestFirstOrder ps = sorted_wrt (\<lambda>a b. createdAt a \<ge> createdAt b) ps"

section \<open>The primary-photo invariant\<close>

text \<open>
  At most one photo of a profile is primary. The four owner routes that write the
  photo collection are taken as requests, each with the session of its caller, and
  run one after the other on the state.
\<close>

definition primaryCount :: "photo list \<Rightarrow> nat" where
  "primaryCount phs = length (filter isPrimary phs)"

definition photoInvariant :: "state \<Rightarrow> bool" where
  "photoInvariant s = list_all (\<lambda>p. primaryCount (photos p) \<le> 1) (profiles s)"

datatype photo_request =
    CreateProfile date profile_form
  | EditProfile profile_form
  | RemovePhoto "oid option"
  | SetPrimaryPhoto "oid option"

fun handleRequest :: "session_user option \<Rightarrow> photo_request \<Rightarrow> state \<Rightarrow> state" where
  "handleRequest caller (CreateProfile now form) s = snd (createProfile now form (s\<lparr>session := caller\<rparr>))"
| "handleRequest caller (EditProfile form) s = snd (editProfile form (s\<lparr>session := caller\<rparr>))"
| "handleRequest caller (RemovePhoto photoId) s = snd (removePhoto photoId (s\<lparr>session := caller\<rparr>))"
| "handleRequest caller (SetPrimaryPhoto photoId) s = snd (setPrimaryPhoto photoId (s\<lparr>session := caller\<rparr>))"

fun handleAll :: "(session_user option \<times> photo_request) list \<Rightarrow> state \<Rightarrow> state" where
  "handleAll [] s = s"
| "handleAll ((caller, r) # rs) s = handleAll rs (handleRequest caller r s)"

section \<open>Sample documents\<close>

text \<open>Concrete documents and states, on which the theorems below are instantiated.\<close>

definition samplePersonalInfo :: "string \<Rightarrow> string \<Rightarrow> int \<Rightarrow> personal_info" where
  "samplePersonalInfo g c a =
     \<lparr>name = ''Ayesha'', age = a, gender = g, dateOfBirth = 0, height = None,
      maritalStatus = ''never-married'', location = \<lparr>city = c, country = ''Pakistan''\<rparr>,
      nationality = ''Pakistani''\<rparr>"

definition sampleProfile :: "oid \<Rightarrow> oid \<Rightarrow> status \<Rightarrow> bool \<Rightarrow> photo list \<Rightarrow> date \<Rightarrow> profile" where
  "sampleProfile i uid st pub phs created =
     \<lparr>profile_id = i, userId = uid,
      personalInfo = samplePersonalInfo ''female'' ''Lahore'' 25,
      education = \<lparr>level = ''bachelor'', edu_field = None, institution = None\<rparr>,
      occupation = \<lparr>profession = ''teacher'', company = None, income = None\<rparr>,
      familyInfo = \<lparr>familyType = None, familyStatus = None, siblings = None,
                    fatherName = None, motherName = None\<rparr>,
      religiousInfo = \<lparr>sect = None, religiousness = None, hijab = None, beard = None\<rparr>,
      photos = phs,
      preferences = \<lparr>ageRangeMin = None, ageRangeMax = None, pref_location = [],
                     pref_education = [], pref_maritalStatus = [], pref_religiousness = []\<rparr>,
      about = None, expectations = None,
      contactInfo = \<lparr>guardianName = None, guardianPhone = None, guardianRelation = None\<rparr>,
      status = st, published = pub, approvedBy = None, approvedAt = None,
      rejectionReason = None, views = 0, lastViewed = None, createdAt = created\<rparr>"

definition samplePhoto :: "oid \<Rightarrow> bool \<Rightarrow> photo" where
  "samplePhoto i prim = \<lparr>photo_id = i, url = ''u'', publicId = ''f'', isPrimary = prim\<rparr>"

definition samplePayment :: "oid \<Rightarrow> oid \<Rightarrow> pay_status \<Rightarrow> payment" where
  "samplePayment i uid st =
     \<lparr>payment_id = i, pay_userId = uid, amount = 5000, currency = ''PKR'',
      paymentMethod = ''easypaisa'', paymentType = ''registration'', pay_status = st,
      transactionId = None, referenceNumber = None, senderNumber = None, senderName = None,
      pay_notes = None, verifiedBy = None, verifiedAt = None, verificationNotes = None,
      pay_createdAt = 0\<rparr>"

definition sampleAdmin :: session_user where
  "sampleAdmin = \<lparr>sess_id = 1, sess_role = ''admin'', sess_isPaid = True, sess_profileCompleted = False\<rparr>"

definition sampleOwner :: session_user where
  "sampleOwner = \<lparr>sess_id = 3, sess_role = ''user'', sess_isPaid = True, sess_profileCompleted = False\<rparr>"

definition sampleUsers :: "user list" where
  "sampleUsers =
     [\<lparr>user_id = 1, role = ''admin'', isPaid = True, isActive = True, profileCompleted = False\<rparr>,
      \<lparr>user_id = 2, role = ''user'', isPaid = False, isActive = True, profileCompleted = False\<rparr>,
      \<lparr>user_id = 3, role = ''user'', isPaid = True, isActive = True, profileCompleted = False\<rparr>]"

definition sampleState :: "profile list \<Rightarrow> payment list \<Rightarrow> session_user \<Rightarrow> state" where
  "sampleState ps pays u =
     \<lparr>users = sampleUsers, profiles = ps, payments = pays, nextOid = 100, session = Some u\<rparr>"

definition sampleForm :: "upload list \<Rightarrow> profile_form" where
  "sampleForm fs =
     \<lparr>errors = [], files = fs,
      body_personalInfo = samplePersonalInfo ''male'' ''Karachi'' 30,
      body_education = \<lparr>level = ''master'', edu_field = Some '' physics '', institution = None\<rparr>,
      body_occupation = \<lparr>profession = ''engineer'', company = None, income = None\<rparr>,
      body_familyInfo = \<lparr>familyType = None, familyStatus = None, siblings = Some 2,
                         fatherName = None, motherName = None\<rparr>,
      body_religiousInfo = \<lparr>sect = None, religiousness = None, hijab = None, beard = None\<rparr>,
      body_preferences = \<lparr>ageRangeMin = Some 20, ageRangeMax = Some 30, pref_location = [],
                          pref_education = [], pref_maritalStatus = [], pref_religiousness = []\<rparr>,
      body_about = Some ''hello'', body_expectations = None,
      body_contactInfo = \<lparr>guardianName = None, guardianPhone = None, guardianRelation = None\<rparr>,
      raises = False\<rparr>"

text \<open>
  A runtime whose parameters refuse everything, a validation of users that asks
  for one of the two roles, and queries made of the texts of their parameters.
\<close>

definition sampleRuntime :: runtime where
  "sampleRuntime =
     \<lparr>otherParseInt = (\<lambda>t. None), otherRegExp = (\<lambda>c. None), otherCondition = (\<lambda>v. None),
      negativeSkip = (\<lambda>n ps. None)\<rparr>"

definition sampleValidUser :: "user \<Rightarrow> bool" where
  "sampleValidUser usr = (role usr \<in> set [''user'', ''admin''])"

definition sampleQuery :: "string option \<Rightarrow> string option \<Rightarrow> string option \<Rightarrow> string option \<Rightarrow> string option \<Rightarrow> browse_query" where
  "sampleQuery pg g c lo hi =
     \<lparr>query_page = map_option QString pg, query_gender = map_option QString g,
      query_city = map_option QString c, query_minAge = map_option QString lo,
      query_maxAge = map_option QString hi\<rparr>"

definition sampleProfiles :: "nat \<Rightarrow> profile list" where
  "sampleProfiles n = map (\<lambda>i. sampleProfile i i Approved True [] (int i)) [0..<n]"

section \<open>Facts about the store\<close>

lemma findById_Some_key: "findById key i xs = Some x \<Longrightarrow> key x = i \<and> x \<in> set xs"
  by (auto simp: findById_def findOne_def find_Some_iff)

lemma findOne_Some: "findOne P xs = Some x \<Longrightarrow> P x \<and> x \<in> set xs"
  by (auto simp: findOne_def find_Some_iff)

lemma findById_Cons:
  "findById key i (x # xs) = (if key x = i then Some x else findById key i xs)"
  by (simp add: findById_def findOne_def)

lemma findById_Nil: "findById key i [] = None"
  by (simp add: findById_def findOne_def)

lemma findById_save_same:
  "findById key (key d) xs = Some x \<Longrightarrow> findById key (key d) (save key d xs) = Some d"
  by (induction xs) (auto simp: findById_Cons findById_Nil split: if_splits)

lemma findById_save_other:
  "key d \<noteq> j \<Longrightarrow> findById key j (save key d xs) = findById key j xs"
  by (induction xs) (auto simp: findById_Cons findById_Nil)

lemma save_unchanged:
  "findById key i xs = Some x \<Longrightarrow> save key x xs = xs"
  by (induction xs) (auto simp: findById_Cons findById_Nil split: if_splits dest: findById_Some_key)

lemma findById_unique:
  "distinct (map key xs) \<Longrightarrow> findById key i xs = Some a \<Longrightarrow> b \<in> set xs \<Longrightarrow> key b = i \<Longrightarrow> a = b"
  by (induction xs) (auto simp: findById_Cons findById_Nil split: if_splits dest: findById_Some_key)

lemma findOne_Cons: "findOne P (x # xs) = (if P x then Some x else findOne P xs)"
  by (simp add: findOne_def)

lemma findOne_Nil: "findOne P [] = None"
  by (simp add: findOne_def)

lemma trim_unpadded:
  assumes "r \<noteq> []" and "\<not> isWhiteSpace (hd r)" and "\<not> isWhiteSpace (last r)"
  shows "trim r = r"
proof -
  have "dropWhile isWhiteSpace r = r"
    using assms(2) by (simp add: dropWhile_eq_self_iff)
  moreover have "dropWhile isWhiteSpace (rev r) = rev r"
    using assms(1,3) by (simp add: dropWhile_eq_self_iff hd_rev)
  ultimately show ?thesis by (simp add: trim_def)
qed

section \<open>Facts about validation\<close>

text \<open>
  The validators of the profile schema do not look at the paths of the review and
  of publication, and those of the payment schema not at the paths of verification.
\<close>

lemma validProfile_status [simp]: "validProfile (p\<lparr>status := a\<rparr>) = validProfile p"
  by (simp add: validProfile_def)

lemma validProfile_published [simp]: "validProfile (p\<lparr>published := a\<rparr>) = validProfile p"
  by (simp add: validProfile_def)

lemma validProfile_approvedBy [simp]: "validProfile (p\<lparr>approvedBy := a\<rparr>) = validProfile p"
  by (simp add: validProfile_def)

lemma validProfile_approvedAt [simp]: "validProfile (p\<lparr>approvedAt := a\<rparr>) = validProfile p"
  by (simp add: validProfile_def)

lemma validProfile_rejectionReason [simp]: "validProfile (p\<lparr>rejectionReason := a\<rparr>) = validProfile p"
  by (simp add: validProfile_def)

lemma validPayment_pay_status [simp]: "validPayment (p\<lparr>pay_status := a\<rparr>) = validPayment p"
  by (simp add: validPayment_def)

lemma validPayment_verifiedBy [simp]: "validPayment (p\<lparr>verifiedBy := a\<rparr>) = validPayment p"
  by (simp add: validPayment_def)

lemma validPayment_verifiedAt [simp]: "validPayment (p\<lparr>verifiedAt := a\<rparr>) = validPayment p"
  by (simp add: validPayment_def)

lemma validPayment_verificationNotes [simp]: "validPayment (p\<lparr>verificationNotes := a\<rparr>) = validPayment p"
  by (simp add: validPayment_def)

lemma validProfile_sampleProfile:
  "validProfile (sampleProfile i uid st pub phs created) = list_all validPhoto phs"
  by (simp add: validProfile_def sampleProfile_def samplePersonalInfo_def validPersonalInfo_def
      validEducation_def validOccupation_def validFamilyInfo_def validReligiousInfo_def
      validPreferences_def inEnum_def inRange_def maxLength_def)

lemma validPayment_samplePayment: "validPayment (samplePayment i uid st)"
  by (simp add: validPayment_def samplePayment_def maxLength_def)

section \<open>Review of a profile by an administrator\<close>

text \<open>
  C1, as the code has it. For an administrator and an existing profile that passes
  the validation of its schema, whatever its status: a review with action
  \<^verbatim>\<open>approve\<close> succeeds and leaves the profile approved and published, with the
  administrator as reviewer, the time of the call as review time and no rejection
  reason; a review with action \<^verbatim>\<open>reject\<close> and reason \<open>r\<close> succeeds and leaves it
  rejected and unpublished, with reviewer and review time, and with \<open>r\<close> stripped
  of leading and trailing white space as the rejection reason (the schema declares
  \<^verbatim>\<open>rejectionReason\<close> with \<^verbatim>\<open>trim: true\<close>). By \<open>trim_unpadded\<close> that is \<open>r\<close>
  itself when \<open>r\<close> neither starts nor ends with white space.
\<close>

theorem reviewProfile_applies:
  assumes "session s = Some u" and "sess_role u = ''admin''"
    and "findById profile_id i (profiles s) = Some p"
    and "validProfile p"
  shows "(case reviewProfile now (Some i) \<lparr>action = Some ''approve'', reason = r\<rparr> s of
            (res, s') \<Rightarrow>
              res = Json 200 True ''Profile approved successfully'' \<and>
              findById profile_id i (profiles s') =
                Some (p\<lparr>status := Approved, published := True, approvedBy := Some (sess_id u),
                        approvedAt := Some now, rejectionReason := None\<rparr>)) \<and>
         (case reviewProfile now (Some i) \<lparr>action = Some ''reject'', reason = r\<rparr> s of
            (res, s') \<Rightarrow>
              res = Json 200 True ''Profile rejectd successfully'' \<and>
              findById profile_id i (profiles s') =
                Some (p\<lparr>status := Rejected, published := False, approvedBy := Some (sess_id u),
                        approvedAt := Some now, rejectionReason := map_option trim r\<rparr>))"
proof -
  have k: "profile_id p = i"
    using assms(3) by (simp add: findById_Some_key)
  have a: "findById profile_id i (save profile_id (p\<lparr>status := Approved, published := True,
             approvedBy := Some (sess_id u), approvedAt := Some now, rejectionReason := None\<rparr>) (profiles s))
           = Some (p\<lparr>status := Approved, published := True,
             approvedBy := Some (sess_id u), approvedAt := Some now, rejectionReason := None\<rparr>)"
    using findById_save_same[of profile_id "p\<lparr>status := Approved, published := True,
             approvedBy := Some (sess_id u), approvedAt := Some now, rejectionReason := None\<rparr>" "profiles s" p]
      assms(3) k by simp
  have b: "findById profile_id i (save profile_id (p\<lparr>status := Rejected, published := False,
             rejectionReason := map_option trim r,
             approvedBy := Some (sess_id u), approvedAt := Some now\<rparr>) (profiles s))
           = Some (p\<lparr>status := Rejected, published := False, rejectionReason := map_option trim r,
             approvedBy := Some (sess_id u), approvedAt := Some now\<rparr>)"
    using findById_save_same[of profile_id "p\<lparr>status := Rejected, published := False,
             rejectionReason := map_option trim r,
             approvedBy := Some (sess_id u), approvedAt := Some now\<rparr>" "profiles s" p]
      assms(3) k by simp
  show ?thesis
    using assms a b
    by (simp add: reviewProfile_def isAuthenticated_def isAdmin_def reviewHandler_def
        trimSetter_def asText_def)
qed

text \<open>The theorem at a profile in status \<^verbatim>\<open>draft\<close>, reviewed at time 7.\<close>

theorem reviewProfile_applies_witness:
  "session (sampleState [sampleProfile 10 2 Draft False [] 0] [] sampleAdmin) = Some sampleAdmin \<and>
   sess_role sampleAdmin = ''admin'' \<and>
   findById profile_id 10 (profiles (sampleState [sampleProfile 10 2 Draft False [] 0] [] sampleAdmin))
     = Some (sampleProfile 10 2 Draft False [] 0) \<and>
   validProfile (sampleProfile 10 2 Draft False [] 0) \<and>
   (case reviewProfile 7 (Some 10) \<lparr>action = Some ''approve'', reason = Some ''late''\<rparr>
           (sampleState [sampleProfile 10 2 Draft False [] 0] [] sampleAdmin) of
      (res, s') \<Rightarrow>
        res = Json 200 True ''Profile approved successfully'' \<and>
        findById profile_id 10 (profiles s') =
          Some ((sampleProfile 10 2 Draft False [] 0)\<lparr>status := Approved, published := True,
                  approvedBy := Some (sess_id sampleAdmin), approvedAt := Some 7,
                  rejectionReason := None\<rparr>)) \<and>
   (case reviewProfile 7 (Some 10) \<lparr>action = Some ''reject'', reason = Some ''late''\<rparr>
           (sampleState [sampleProfile 10 2 Draft False [] 0] [] sampleAdmin) of
      (res, s') \<Rightarrow>
        res = Json 200 True ''Profile rejectd successfully'' \<and>
        findById profile_id 10 (profiles s') =
          Some ((sampleProfile 10 2 Draft False [] 0)\<lparr>status := Rejected, published := False,
                  approvedBy := Some (sess_id sampleAdmin), approvedAt := Some 7,
                  rejectionReason := map_option trim (Some ''late'')\<rparr>))"
proof -
  have h1: "session (sampleState [sampleProfile 10 2 Draft False [] 0] [] sampleAdmin) = Some sampleAdmin"
    by (simp add: sampleState_def)
  have h2: "sess_role sampleAdmin = ''admin''"
    by (simp add: sampleAdmin_def)
  have h3: "findById profile_id 10 (profiles (sampleState [sampleProfile 10 2 Draft False [] 0] [] sampleAdmin))
     = Some (sampleProfile 10 2 Draft False [] 0)"
    by (simp add: sampleState_def findById_Cons sampleProfile_def)
  have h4: "validProfile (sampleProfile 10 2 Draft False [] 0)"
    by (simp add: validProfile_sampleProfile)
  from reviewProfile_applies[OF h1 h2 h3 h4, where now = 7 and r = "Some ''late''"] h1 h2 h3 h4
  show ?thesis by blast
qed

text \<open>
  The stored reason is not always the reason given: the assignment
  \<^verbatim>\<open>profile.rejectionReason = rejectionReason\<close> runs the trim setter of the
  schema, so the reason \<^verbatim>\<open>" late"\<close> is stored as \<^verbatim>\<open>"late"\<close>. And the review is
  not applied to every stored profile: \<^verbatim>\<open>profile.save()\<close> validates the document,
  so for a stored profile with age 17, which the schema rejects, the answer is 500
  and nothing is written.
\<close>

theorem reviewProfile_reason_counterexample:
  "map_option rejectionReason
     (findById profile_id 10
        (profiles (snd (reviewProfile 7 (Some 10) \<lparr>action = Some ''reject'', reason = Some '' late''\<rparr>
           (sampleState [sampleProfile 10 2 Submitted False [] 0] [] sampleAdmin)))))
   = Some (Some ''late'') \<and>
   Some (Some ''late'') \<noteq> Some (Some '' late'') \<and>
   reviewProfile 7 (Some 10) \<lparr>action = Some ''approve'', reason = None\<rparr>
     (sampleState
        [(sampleProfile 10 2 Submitted False [] 0)
           \<lparr>personalInfo := samplePersonalInfo ''female'' ''Lahore'' 17\<rparr>] [] sampleAdmin)
   = (Json 500 False ''An error occurred'',
      sampleState
        [(sampleProfile 10 2 Submitted False [] 0)
           \<lparr>personalInfo := samplePersonalInfo ''female'' ''Lahore'' 17\<rparr>] [] sampleAdmin)"
  by code_simp

text \<open>
  C10, as the code has it. A review by an administrator of an existing profile that
  passes the validation of its schema, with an action that is neither
  \<^verbatim>\<open>approve\<close> nor \<^verbatim>\<open>reject\<close> (or with no action at all), is answered with a
  success and leaves the whole state, so every field of the profile, as it was: no
  validation error is raised for the action.
\<close>

theorem reviewProfile_unrecognised_action:
  assumes "session s = Some u" and "sess_role u = ''admin''"
    and "findById profile_id i (profiles s) = Some p"
    and "validProfile p"
    and "action body \<noteq> Some ''approve''" and "action body \<noteq> Some ''reject''"
  shows "reviewProfile now (Some i) body s =
           (Json 200 True (''Profile '' @ asText (action body) @ ''d successfully''), s)"
  using assms
  by (simp add: reviewProfile_def isAuthenticated_def isAdmin_def reviewHandler_def save_unchanged)

text \<open>The theorem at the action \<^verbatim>\<open>archive\<close>.\<close>

theorem reviewProfile_unrecognised_action_witness:
  "session (sampleState [sampleProfile 10 2 Submitted False [] 0] [] sampleAdmin) = Some sampleAdmin \<and>
   sess_role sampleAdmin = ''admin'' \<and>
   findById profile_id 10 (profiles (sampleState [sampleProfile 10 2 Submitted False [] 0] [] sampleAdmin))
     = Some (sampleProfile 10 2 Submitted False [] 0) \<and>
   validProfile (sampleProfile 10 2 Submitted False [] 0) \<and>
   action \<lparr>action = Some ''archive'', reason = None\<rparr> \<noteq> Some ''approve'' \<and>
   action \<lparr>action = Some ''archive'', reason = None\<rparr> \<noteq> Some ''reject'' \<and>
   reviewProfile 7 (Some 10) \<lparr>action = Some ''archive'', reason = None\<rparr>
       (sampleState [sampleProfile 10 2 Submitted False [] 0] [] sampleAdmin)
     = (Json 200 True ''Profile archived successfully'',
        sampleState [sampleProfile 10 2 Submitted False [] 0] [] sampleAdmin)"
proof -
  let ?st = "sampleState [sampleProfile 10 2 Submitted False [] 0] [] sampleAdmin"
  have h1: "session ?st = Some sampleAdmin"
    by (simp add: sampleState_def)
  have h2: "sess_role sampleAdmin = ''admin''"
    by (simp add: sampleAdmin_def)
  have h3: "findById profile_id 10 (profiles ?st) = Some (sampleProfile 10 2 Submitted False [] 0)"
    by (simp add: sampleState_def findById_Cons sampleProfile_def)
  have h4: "action \<lparr>action = Some ''archive'', reason = None\<rparr> \<noteq> Some ''approve''"
    and h5: "action \<lparr>action = Some ''archive'', reason = None\<rparr> \<noteq> Some ''reject''"
    by simp_all
  have h6: "validProfile (sampleProfile 10 2 Submitted False [] 0)"
    by (simp add: validProfile_sampleProfile)
  from reviewProfile_unrecognised_action[OF h1 h2 h3 h6 h4 h5, of 7] h1 h2 h3 h4 h5 h6
  show ?thesis by (simp add: asText_def)
qed

text \<open>
  The handler calls \<^verbatim>\<open>profile.save()\<close> also when it has changed nothing, and the
  save validates: on a stored profile with age 17 the unrecognised action is
  answered with 500, not with a success.
\<close>

theorem reviewProfile_unrecognised_action_counterexample:
  "reviewProfile 7 (Some 10) \<lparr>action = Some ''archive'', reason = None\<rparr>
     (sampleState
        [(sampleProfile 10 2 Submitted False [] 0)
           \<lparr>personalInfo := samplePersonalInfo ''female'' ''Lahore'' 17\<rparr>] [] sampleAdmin)
   = (Json 500 False ''An error occurred'',
      sampleState
        [(sampleProfile 10 2 Submitted False [] 0)
           \<lparr>personalInfo := samplePersonalInfo ''female'' ''Lahore'' 17\<rparr>] [] sampleAdmin)"
  by code_simp

section \<open>Publication toggle\<close>

text \<open>
  C3, as the code has it. For an administrator and an existing profile: when the
  status of the profile is not \<^verbatim>\<open>approved\<close>, the toggle is answered with status
  400 and the message that only approved profiles can be published (the
  precondition-failed outcome), and the state is unchanged; when the status is
  \<^verbatim>\<open>approved\<close> and the profile passes the validation of its schema, the toggle
  succeeds and the stored profile is the old one with \<^verbatim>\<open>published\<close> negated, all
  other fields, the status among them, being as before.
\<close>

theorem togglePublish_approved_only:
  assumes "session s = Some u" and "sess_role u = ''admin''"
    and "findById profile_id i (profiles s) = Some p"
  shows "(status p \<noteq> Approved \<longrightarrow>
            togglePublish (Some i) s = (Json 400 False ''Only approved profiles can be published'', s)) \<and>
         (status p = Approved \<and> validProfile p \<longrightarrow>
            (case togglePublish (Some i) s of
               (res, s') \<Rightarrow>
                 res = Json 200 True
                         (''Profile '' @ (if published p then ''unpublished'' else ''published'') @ '' successfully'') \<and>
                 findById profile_id i (profiles s') = Some (p\<lparr>published := \<not> published p\<rparr>) \<and>
                 users s' = users s \<and> payments s' = payments s \<and> session s' = session s))"
proof -
  have k: "profile_id p = i"
    using assms(3) by (simp add: findById_Some_key)
  have a: "findById profile_id i (save profile_id (p\<lparr>published := \<not> published p\<rparr>) (profiles s))
           = Some (p\<lparr>published := \<not> published p\<rparr>)"
    using findById_save_same[of profile_id "p\<lparr>published := \<not> published p\<rparr>" "profiles s" p]
      assms(3) k by simp
  show ?thesis
    using assms a
    by (simp add: togglePublish_def isAuthenticated_def isAdmin_def publishHandler_def Let_def)
qed

text \<open>The theorem at a rejected profile and at an approved, published one.\<close>

theorem togglePublish_approved_only_witness:
  "session (sampleState [sampleProfile 10 2 Rejected False [] 0, sampleProfile 11 3 Approved True [] 0] [] sampleAdmin)
     = Some sampleAdmin \<and>
   sess_role sampleAdmin = ''admin'' \<and>
   findById profile_id 10
     (profiles (sampleState [sampleProfile 10 2 Rejected False [] 0, sampleProfile 11 3 Approved True [] 0] [] sampleAdmin))
     = Some (sampleProfile 10 2 Rejected False [] 0) \<and>
   findById profile_id 11
     (profiles (sampleState [sampleProfile 10 2 Rejected False [] 0, sampleProfile 11 3 Approved True [] 0] [] sampleAdmin))
     = Some (sampleProfile 11 3 Approved True [] 0) \<and>
   status (sampleProfile 10 2 Rejected False [] 0) \<noteq> Approved \<and>
   status (sampleProfile 11 3 Approved True [] 0) = Approved \<and>
   validProfile (sampleProfile 11 3 Approved True [] 0) \<and>
   togglePublish (Some 10)
     (sampleState [sampleProfile 10 2 Rejected False [] 0, sampleProfile 11 3 Approved True [] 0] [] sampleAdmin)
     = (Json 400 False ''Only approved profiles can be published'',
        sampleState [sampleProfile 10 2 Rejected False [] 0, sampleProfile 11 3 Approved True [] 0] [] sampleAdmin) \<and>
   fst (togglePublish (Some 11)
        (sampleState [sampleProfile 10 2 Rejected False [] 0, sampleProfile 11 3 Approved True [] 0] [] sampleAdmin))
     = Json 200 True ''Profile unpublished successfully'' \<and>
   findById profile_id 11
     (profiles (snd (togglePublish (Some 11)
        (sampleState [sampleProfile 10 2 Rejected False [] 0, sampleProfile 11 3 Approved True [] 0] [] sampleAdmin))))
     = Some ((sampleProfile 11 3 Approved True [] 0)\<lparr>published := False\<rparr>)"
proof -
  let ?st = "sampleState [sampleProfile 10 2 Rejected False [] 0, sampleProfile 11 3 Approved True [] 0] [] sampleAdmin"
  have h1: "session ?st = Some sampleAdmin"
    by (simp add: sampleState_def)
  have h2: "sess_role sampleAdmin = ''admin''"
    by (simp add: sampleAdmin_def)
  have h3: "findById profile_id 10 (profiles ?st) = Some (sampleProfile 10 2 Rejected False [] 0)"
    by (simp add: sampleState_def findById_Cons sampleProfile_def)
  have h4: "findById profile_id 11 (profiles ?st) = Some (sampleProfile 11 3 Approved True [] 0)"
    by (simp add: sampleState_def findById_Cons sampleProfile_def)
  have h5: "status (sampleProfile 10 2 Rejected False [] 0) \<noteq> Approved"
    by (simp add: sampleProfile_def)
  have h6: "status (sampleProfile 11 3 Approved True [] 0) = Approved"
    and h7: "published (sampleProfile 11 3 Approved True [] 0)"
    by (simp_all add: sampleProfile_def)
  have h8: "validProfile (sampleProfile 11 3 Approved True [] 0)"
    by (simp add: validProfile_sampleProfile)
  from togglePublish_approved_only[OF h1 h2 h3] h5
  have r1: "togglePublish (Some 10) ?st = (Json 400 False ''Only approved profiles can be published'', ?st)"
    by blast
  from togglePublish_approved_only[OF h1 h2 h4] h6 h7 h8
  have r2: "fst (togglePublish (Some 11) ?st) = Json 200 True ''Profile unpublished successfully''"
    and r3: "findById profile_id 11 (profiles (snd (togglePublish (Some 11) ?st)))
     = Some ((sampleProfile 11 3 Approved True [] 0)\<lparr>published := False\<rparr>)"
    by (simp_all add: case_prod_beta)
  from h1 h2 h3 h4 h5 h6 h8 r1 r2 r3 show ?thesis by blast
qed

text \<open>
  On an approved profile that the schema rejects (age 17) the flag is not negated:
  \<^verbatim>\<open>profile.save()\<close> throws, the answer is 500 and the state is unchanged.
\<close>

theorem togglePublish_invalid_counterexample:
  "status ((sampleProfile 11 3 Approved False [] 0)
             \<lparr>personalInfo := samplePersonalInfo ''female'' ''Lahore'' 17\<rparr>) = Approved \<and>
   togglePublish (Some 11)
     (sampleState
        [(sampleProfile 11 3 Approved False [] 0)
           \<lparr>personalInfo := samplePersonalInfo ''female'' ''Lahore'' 17\<rparr>] [] sampleAdmin)
   = (Json 500 False ''An error occurred'',
      sampleState
        [(sampleProfile 11 3 Approved False [] 0)
           \<lparr>personalInfo := samplePersonalInfo ''female'' ''Lahore'' 17\<rparr>] [] sampleAdmin)"
  by code_simp

section \<open>Creation and edit by the owner\<close>

lemma map_url_newPhotos: "map url (newPhotos b first fs) = map path fs"
proof -
  have "map url (newPhotos b first fs) = map (path \<circ> snd) (enumerate 0 fs)"
    by (simp add: newPhotos_def case_prod_beta comp_def)
  then show ?thesis by (simp flip: map_map)
qed

lemma map_publicId_newPhotos: "map publicId (newPhotos b first fs) = map filename fs"
proof -
  have "map publicId (newPhotos b first fs) = map (filename \<circ> snd) (enumerate 0 fs)"
    by (simp add: newPhotos_def case_prod_beta comp_def)
  then show ?thesis by (simp flip: map_map)
qed

text \<open>
  C5, as the code has it. When the logged-in user already has a profile,
  \<^verbatim>\<open>POST /profiles/create\<close> never changes the profile collection or the users: no
  second document is created and the existing one stays as it is. When the user
  has paid and the form passes validation, the answer is the conflict outcome: the
  flash error that a profile exists already and a redirect to the edit page, in an
  unchanged state.
\<close>

theorem createProfile_existing_profile:
  assumes "session s = Some u"
    and "findOne (\<lambda>p. userId p = sess_id u) (profiles s) = Some p"
  shows "profiles (snd (createProfile now form s)) = profiles s \<and>
         users (snd (createProfile now form s)) = users s \<and>
         (\<forall>usr. findById user_id (sess_id u) (users s) = Some usr \<and> isPaid usr \<and> errors form = [] \<longrightarrow>
            createProfile now form s =
              (Redirect (Error_msg ''You already have a profile. You can edit it instead.'') ''/profiles/edit'', s))"
  using assms
  by (auto simp: createProfile_def isAuthenticated_def hasPaid_def createHandler_def
      split: option.splits)

text \<open>The theorem at a paid user who owns profile 10.\<close>

theorem createProfile_existing_profile_witness:
  "session (sampleState [sampleProfile 10 3 Approved True [] 0] [] sampleOwner) = Some sampleOwner \<and>
   findOne (\<lambda>p. userId p = sess_id sampleOwner)
     (profiles (sampleState [sampleProfile 10 3 Approved True [] 0] [] sampleOwner))
     = Some (sampleProfile 10 3 Approved True [] 0) \<and>
   findById user_id (sess_id sampleOwner)
     (users (sampleState [sampleProfile 10 3 Approved True [] 0] [] sampleOwner))
     = Some \<lparr>user_id = 3, role = ''user'', isPaid = True, isActive = True, profileCompleted = False\<rparr> \<and>
   errors (sampleForm []) = [] \<and>
   createProfile 5 (sampleForm []) (sampleState [sampleProfile 10 3 Approved True [] 0] [] sampleOwner)
     = (Redirect (Error_msg ''You already have a profile. You can edit it instead.'') ''/profiles/edit'',
        sampleState [sampleProfile 10 3 Approved True [] 0] [] sampleOwner)"
proof -
  let ?st = "sampleState [sampleProfile 10 3 Approved True [] 0] [] sampleOwner"
  let ?usr = "\<lparr>user_id = 3, role = ''user'', isPaid = True, isActive = True, profileCompleted = False\<rparr>"
  have h1: "session ?st = Some sampleOwner"
    by (simp add: sampleState_def)
  have h2: "findOne (\<lambda>p. userId p = sess_id sampleOwner) (profiles ?st)
              = Some (sampleProfile 10 3 Approved True [] 0)"
    by (simp add: sampleState_def findOne_Cons sampleProfile_def sampleOwner_def)
  have h3: "findById user_id (sess_id sampleOwner) (users ?st) = Some ?usr"
    by (simp add: sampleState_def sampleUsers_def sampleOwner_def findById_Cons)
  have h4: "isPaid ?usr" by simp
  have h5: "errors (sampleForm []) = []"
    by (simp add: sampleForm_def)
  from createProfile_existing_profile[OF h1 h2, of 5 "sampleForm []"] h3 h4 h5
  have "createProfile 5 (sampleForm []) ?st
     = (Redirect (Error_msg ''You already have a profile. You can edit it instead.'') ''/profiles/edit'', ?st)"
    by blast
  with h1 h2 h3 h5 show ?thesis by blast
qed

text \<open>
  The conflict is not the answer in every case: the handler looks at the result of
  validation before it looks for an existing profile, so the owner of profile 10
  who sends a form with a validation error gets the form back with that error; and
  the middleware sends the owner of profile 11, who is not marked as paid, to the
  payment page.
\<close>

theorem createProfile_existing_profile_counterexample:
  "userId (sampleProfile 10 3 Approved True [] 0) = sess_id sampleOwner \<and>
   createProfile 5 ((sampleForm [])\<lparr>errors := [''City is required'']\<rparr>)
     (sampleState [sampleProfile 10 3 Approved True [] 0] [] sampleOwner)
   = (Render ''profiles/create'' [''City is required''],
      sampleState [sampleProfile 10 3 Approved True [] 0] [] sampleOwner) \<and>
   userId (sampleProfile 11 2 Approved True [] 0) = sess_id (sampleOwner\<lparr>sess_id := 2\<rparr>) \<and>
   createProfile 5 (sampleForm [])
     (sampleState [sampleProfile 11 2 Approved True [] 0] [] (sampleOwner\<lparr>sess_id := 2\<rparr>))
   = (Redirect (Error_msg ''Please complete payment to access this feature'') ''/payments'',
      sampleState [sampleProfile 11 2 Approved True [] 0] [] (sampleOwner\<lparr>sess_id := 2\<rparr>))"
  by code_simp

text \<open>
  C4, as the code has it. When \<^verbatim>\<open>POST /profiles/edit\<close> succeeds, the caller had a
  profile \<open>p\<close>, whatever its status, and the stored profile is \<open>p\<close> with status
  \<^verbatim>\<open>submitted\<close>, \<^verbatim>\<open>published\<close> false, every descriptive path overwritten by
  the value built from the request, and the photos of \<open>p\<close>, all kept in place,
  followed by one new photo per uploaded file. No other field changes. The values
  are stored as the request gives them, except that the strings of the paths the
  schema declares with \<^verbatim>\<open>trim: true\<close> (name, field and institution, profession
  and company, the names of the parents, the preferred locations, about,
  expectations and the three guardian paths) lose leading and trailing white
  space.
\<close>

theorem editProfile_success:
  assumes "session s = Some u"
    and "editProfile form s = (Redirect (Success_msg m) target, s')"
  shows "\<exists>p new.
           findOne (\<lambda>p. userId p = sess_id u) (profiles s) = Some p \<and>
           map url new = map path (files form) \<and>
           map publicId new = map filename (files form) \<and>
           findById profile_id (profile_id p) (profiles s') =
             Some (p\<lparr>personalInfo :=
                       (body_personalInfo form)\<lparr>name := trim (name (body_personalInfo form))\<rparr>,
                     education :=
                       (body_education form)
                         \<lparr>edu_field := map_option trim (edu_field (body_education form)),
                          institution := map_option trim (institution (body_education form))\<rparr>,
                     occupation :=
                       (body_occupation form)
                         \<lparr>profession := trim (profession (body_occupation form)),
                          company := map_option trim (company (body_occupation form))\<rparr>,
                     familyInfo :=
                       (body_familyInfo form)
                         \<lparr>fatherName := map_option trim (fatherName (body_familyInfo form)),
                          motherName := map_option trim (motherName (body_familyInfo form))\<rparr>,
                     religiousInfo := body_religiousInfo form,
                     photos := photos p @ new,
                     preferences :=
                       (body_preferences form)
                         \<lparr>pref_location := map trim (pref_location (body_preferences form))\<rparr>,
                     about := map_option trim (body_about form),
                     expectations := map_option trim (body_expectations form),
                     contactInfo :=
                       (body_contactInfo form)
                         \<lparr>guardianName := map_option trim (guardianName (body_contactInfo form)),
                          guardianPhone := map_option trim (guardianPhone (body_contactInfo form)),
                          guardianRelation := map_option trim (guardianRelation (body_contactInfo form))\<rparr>,
                     status := Submitted,
                     published := False\<rparr>)"
proof -
  from assms obtain p where
    p: "findOne (\<lambda>p. userId p = sess_id u) (profiles s) = Some p"
    and ok: "errors form = []" "\<not> raises form"
    by (auto simp: editProfile_def isAuthenticated_def hasPaid_def editHandler_def Let_def
        split: option.splits if_splits)
  let ?new = "newPhotos (nextOid s) (length (photos p) = 0) (files form)"
  let ?p' = "p\<lparr>personalInfo := setPersonalInfo (body_personalInfo form),
                     education := setEducation (body_education form),
                     occupation := setOccupation (body_occupation form),
                     familyInfo := setFamilyInfo (body_familyInfo form),
                     religiousInfo := body_religiousInfo form,
                     photos := photos p @ ?new,
                     preferences := setPreferences (body_preferences form),
                     about := trimSetter (body_about form),
                     expectations := trimSetter (body_expectations form),
                     contactInfo := setContactInfo (body_contactInfo form),
                     status := Submitted,
                     published := False\<rparr>"
  from assms p ok have s': "profiles s' = save profile_id ?p' (profiles s)"
    by (auto simp: editProfile_def isAuthenticated_def hasPaid_def editHandler_def Let_def
        simp del: length_greater_0_conv split: option.splits if_splits)
  from p have "p \<in> set (profiles s)" by (simp add: findOne_Some)
  then obtain q where "findById profile_id (profile_id p) (profiles s) = Some q"
    by (cases "findById profile_id (profile_id p) (profiles s)")
       (auto simp: findById_def findOne_def find_None_iff)
  then have "findById profile_id (profile_id ?p') (save profile_id ?p' (profiles s)) = Some ?p'"
    using findById_save_same[of profile_id ?p' "profiles s" q] by simp
  with s' have "findById profile_id (profile_id p) (profiles s') = Some ?p'" by simp
  then have "findById profile_id (profile_id p) (profiles s') =
             Some (p\<lparr>personalInfo :=
                       (body_personalInfo form)\<lparr>name := trim (name (body_personalInfo form))\<rparr>,
                     education :=
                       (body_education form)
                         \<lparr>edu_field := map_option trim (edu_field (body_education form)),
                          institution := map_option trim (institution (body_education form))\<rparr>,
                     occupation :=
                       (body_occupation form)
                         \<lparr>profession := trim (profession (body_occupation form)),
                          company := map_option trim (company (body_occupation form))\<rparr>,
                     familyInfo :=
                       (body_familyInfo form)
                         \<lparr>fatherName := map_option trim (fatherName (body_familyInfo form)),
                          motherName := map_option trim (motherName (body_familyInfo form))\<rparr>,
                     religiousInfo := body_religiousInfo form,
                     photos := photos p @ ?new,
                     preferences :=
                       (body_preferences form)
                         \<lparr>pref_location := map trim (pref_location (body_preferences form))\<rparr>,
                     about := map_option trim (body_about form),
                     expectations := map_option trim (body_expectations form),
                     contactInfo :=
                       (body_contactInfo form)
                         \<lparr>guardianName := map_option trim (guardianName (body_contactInfo form)),
                          guardianPhone := map_option trim (guardianPhone (body_contactInfo form)),
                          guardianRelation := map_option trim (guardianRelation (body_contactInfo form))\<rparr>,
                     status := Submitted,
                     published := False\<rparr>)"
    by (simp add: setPersonalInfo_def setEducation_def setOccupation_def setFamilyInfo_def
        setPreferences_def setContactInfo_def trimSetter_def)
  with p show ?thesis
    using map_url_newPhotos map_publicId_newPhotos by blast
qed

text \<open>
  The theorem at an approved, published profile with one photo and one upload, with
  the profile that is stored.
\<close>

theorem editProfile_success_witness:
  "session (sampleState [sampleProfile 10 3 Approved True [samplePhoto 11 True] 0] [] sampleOwner) = Some sampleOwner \<and>
   fst (editProfile (sampleForm [\<lparr>path = ''p1'', filename = ''f1''\<rparr>]) (sampleState [sampleProfile 10 3 Approved True [samplePhoto 11 True] 0] [] sampleOwner))
     = Redirect (Success_msg ''Profile updated successfully! It will be reviewed by our team before publishing.'')
         ''/profiles/dashboard'' \<and>
   (\<exists>p new.
           findOne (\<lambda>p. userId p = sess_id sampleOwner) (profiles (sampleState [sampleProfile 10 3 Approved True [samplePhoto 11 True] 0] [] sampleOwner)) = Some p \<and>
           map url new = map path (files (sampleForm [\<lparr>path = ''p1'', filename = ''f1''\<rparr>])) \<and>
           map publicId new = map filename (files (sampleForm [\<lparr>path = ''p1'', filename = ''f1''\<rparr>])) \<and>
           findById profile_id (profile_id p) (profiles (snd (editProfile (sampleForm [\<lparr>path = ''p1'', filename = ''f1''\<rparr>]) (sampleState [sampleProfile 10 3 Approved True [samplePhoto 11 True] 0] [] sampleOwner)))) =
             Some (p\<lparr>personalInfo :=
                       (body_personalInfo (sampleForm [\<lparr>path = ''p1'', filename = ''f1''\<rparr>]))\<lparr>name := trim (name (body_personalInfo (sampleForm [\<lparr>path = ''p1'', filename = ''f1''\<rparr>])))\<rparr>,
                     education :=
                       (body_education (sampleForm [\<lparr>path = ''p1'', filename = ''f1''\<rparr>]))
                         \<lparr>edu_field := map_option trim (edu_field (body_education (sampleForm [\<lparr>path = ''p1'', filename = ''f1''\<rparr>]))),
                          institution := map_option trim (institution (body_education (sampleForm [\<lparr>path = ''p1'', filename = ''f1''\<rparr>])))\<rparr>,
                     occupation :=
                       (body_occupation (sampleForm [\<lparr>path = ''p1'', filename = ''f1''\<rparr>]))
                         \<lparr>profession := trim (profession (body_occupation (sampleForm [\<lparr>path = ''p1'', filename = ''f1''\<rparr>]))),
                          company := map_option trim (company (body_occupation (sampleForm [\<lparr>path = ''p1'', filename = ''f1''\<rparr>])))\<rparr>,
                     familyInfo :=
                       (body_familyInfo (sampleForm [\<lparr>path = ''p1'', filename = ''f1''\<rparr>]))
                         \<lparr>fatherName := map_option trim (fatherName (body_familyInfo (sampleForm [\<lparr>path = ''p1'', filename = ''f1''\<rparr>]))),
                          motherName := map_option trim (motherName (body_familyInfo (sampleForm [\<lparr>path = ''p1'', filename = ''f1''\<rparr>])))\<rparr>,
                     religiousInfo := body_religiousInfo (sampleForm [\<lparr>path = ''p1'', filename = ''f1''\<rparr>]),
                     photos := photos p @ new,
                     preferences :=
                       (body_preferences (sampleForm [\<lparr>path = ''p1'', filename = ''f1''\<rparr>]))
                         \<lparr>pref_location := map trim (pref_location (body_preferences (sampleForm [\<lparr>path = ''p1'', filename = ''f1''\<rparr>])))\<rparr>,
                     about := map_option trim (body_about (sampleForm [\<lparr>path = ''p1'', filename = ''f1''\<rparr>])),
                     expectations := map_option trim (body_expectations (sampleForm [\<lparr>path = ''p1'', filename = ''f1''\<rparr>])),
                     contactInfo :=
                       (body_contactInfo (sampleForm [\<lparr>path = ''p1'', filename = ''f1''\<rparr>]))
                         \<lparr>guardianName := map_option trim (guardianName (body_contactInfo (sampleForm [\<lparr>path = ''p1'', filename = ''f1''\<rparr>]))),
                          guardianPhone := map_option trim (guardianPhone (body_contactInfo (sampleForm [\<lparr>path = ''p1'', filename = ''f1''\<rparr>]))),
                          guardianRelation := map_option trim (guardianRelation (body_contactInfo (sampleForm [\<lparr>path = ''p1'', filename = ''f1''\<rparr>])))\<rparr>,
                     status := Submitted,
                     published := False\<rparr>)) \<and>
   findById profile_id 10
     (profiles (snd (editProfile (sampleForm [\<lparr>path = ''p1'', filename = ''f1''\<rparr>]) (sampleState [sampleProfile 10 3 Approved True [samplePhoto 11 True] 0] [] sampleOwner))))
     = Some ((sampleProfile 10 3 Approved True [samplePhoto 11 True] 0)
          \<lparr>personalInfo := samplePersonalInfo ''male'' ''Karachi'' 30,
           education := \<lparr>level = ''master'', edu_field = Some ''physics'', institution = None\<rparr>,
           occupation := \<lparr>profession = ''engineer'', company = None, income = None\<rparr>,
           familyInfo := \<lparr>familyType = None, familyStatus = None, siblings = Some 2,
                          fatherName = None, motherName = None\<rparr>,
           photos := [samplePhoto 11 True,
                      \<lparr>photo_id = 100, url = ''p1'', publicId = ''f1'', isPrimary = False\<rparr>],
           preferences := \<lparr>ageRangeMin = Some 20, ageRangeMax = Some 30, pref_location = [],
                           pref_education = [], pref_maritalStatus = [], pref_religiousness = []\<rparr>,
           about := Some ''hello'',
           status := Submitted,
           published := False\<rparr>)"
proof -
  have h1: "session (sampleState [sampleProfile 10 3 Approved True [samplePhoto 11 True] 0] [] sampleOwner) = Some sampleOwner"
    by (simp add: sampleState_def)
  have r: "fst (editProfile (sampleForm [\<lparr>path = ''p1'', filename = ''f1''\<rparr>]) (sampleState [sampleProfile 10 3 Approved True [samplePhoto 11 True] 0] [] sampleOwner))
     = Redirect (Success_msg ''Profile updated successfully! It will be reviewed by our team before publishing.'')
         ''/profiles/dashboard''"
    by code_simp
  then have h2: "editProfile (sampleForm [\<lparr>path = ''p1'', filename = ''f1''\<rparr>]) (sampleState [sampleProfile 10 3 Approved True [samplePhoto 11 True] 0] [] sampleOwner)
     = (Redirect (Success_msg ''Profile updated successfully! It will be reviewed by our team before publishing.'')
         ''/profiles/dashboard'', snd (editProfile (sampleForm [\<lparr>path = ''p1'', filename = ''f1''\<rparr>]) (sampleState [sampleProfile 10 3 Approved True [samplePhoto 11 True] 0] [] sampleOwner)))"
    by (metis prod.collapse)
  note t = editProfile_success[OF h1 h2]
  have e: "findById profile_id 10
     (profiles (snd (editProfile (sampleForm [\<lparr>path = ''p1'', filename = ''f1''\<rparr>]) (sampleState [sampleProfile 10 3 Approved True [samplePhoto 11 True] 0] [] sampleOwner))))
     = Some ((sampleProfile 10 3 Approved True [samplePhoto 11 True] 0)
          \<lparr>personalInfo := samplePersonalInfo ''male'' ''Karachi'' 30,
           education := \<lparr>level = ''master'', edu_field = Some ''physics'', institution = None\<rparr>,
           occupation := \<lparr>profession = ''engineer'', company = None, income = None\<rparr>,
           familyInfo := \<lparr>familyType = None, familyStatus = None, siblings = Some 2,
                          fatherName = None, motherName = None\<rparr>,
           photos := [samplePhoto 11 True,
                      \<lparr>photo_id = 100, url = ''p1'', publicId = ''f1'', isPrimary = False\<rparr>],
           preferences := \<lparr>ageRangeMin = Some 20, ageRangeMax = Some 30, pref_location = [],
                           pref_education = [], pref_maritalStatus = [], pref_religiousness = []\<rparr>,
           about := Some ''hello'',
           status := Submitted,
           published := False\<rparr>)"
    by code_simp
  show ?thesis
    using h1 r t e by (intro conjI) assumption+
qed

text \<open>
  A descriptive path is not always overwritten with the value of the request: the
  field of education \<^verbatim>\<open>" physics "\<close> is stored as \<^verbatim>\<open>"physics"\<close>.
\<close>

theorem editProfile_trim_counterexample:
  "body_education (sampleForm [])
     = \<lparr>level = ''master'', edu_field = Some '' physics '', institution = None\<rparr> \<and>
   fst (editProfile (sampleForm [])
          (sampleState [sampleProfile 10 3 Approved True [] 0] [] sampleOwner))
     = Redirect (Success_msg ''Profile updated successfully! It will be reviewed by our team before publishing.'')
         ''/profiles/dashboard'' \<and>
   map_option education
     (findById profile_id 10
        (profiles (snd (editProfile (sampleForm [])
           (sampleState [sampleProfile 10 3 Approved True [] 0] [] sampleOwner)))))
     = Some \<lparr>level = ''master'', edu_field = Some ''physics'', institution = None\<rparr>"
  by code_simp

section \<open>At most one primary photo\<close>

lemma enumerate_index_ge: "(i, x) \<in> set (enumerate n xs) \<Longrightarrow> n \<le> i"
  by (simp add: in_set_enumerate_eq)

lemma primaryCount_newPhotos_not_first: "primaryCount (newPhotos b False fs) = 0"
  by (simp add: primaryCount_def newPhotos_def case_prod_beta)

lemma primaryCount_Cons:
  "primaryCount (ph # phs) = (if isPrimary ph then 1 else 0) + primaryCount phs"
  by (simp add: primaryCount_def)

lemma primaryCount_newPhotos: "primaryCount (newPhotos b first fs) \<le> 1"
proof (cases fs)
  case Nil
  then show ?thesis by (simp add: primaryCount_def newPhotos_def)
next
  case (Cons f fs')
  let ?G = "\<lambda>(index, file). \<lparr>photo_id = b + index, url = path file, publicId = filename file,
             isPrimary = (first \<and> index = 0)\<rparr>"
  have "filter isPrimary (map ?G (enumerate (Suc 0) fs')) = []"
    by (auto simp: filter_empty_conv dest!: enumerate_index_ge)
  then have rest: "primaryCount (map ?G (enumerate (Suc 0) fs')) = 0"
    by (simp only: primaryCount_def list.size)
  have "newPhotos b first fs = ?G (0, f) # map ?G (enumerate (Suc 0) fs')"
    by (simp add: newPhotos_def Cons)
  then have "primaryCount (newPhotos b first fs)
      = (if isPrimary (?G (0, f)) then 1 else 0) + primaryCount (map ?G (enumerate (Suc 0) fs'))"
    by (simp only: primaryCount_Cons)
  with rest show ?thesis by simp
qed

lemma primaryCount_append: "primaryCount (xs @ ys) = primaryCount xs + primaryCount ys"
  by (simp add: primaryCount_def)

lemma primaryCount_photosPull: "primaryCount (photosPull x phs) \<le> primaryCount phs"
proof (cases x)
  case None
  then show ?thesis by (simp add: photosPull_def)
next
  case (Some i)
  have "filter isPrimary (filter (\<lambda>ph. photo_id ph \<noteq> i) phs)
          = filter (\<lambda>ph. photo_id ph \<noteq> i) (filter isPrimary phs)"
    by (simp add: conj_commute)
  then show ?thesis
    using Some by (simp add: photosPull_def primaryCount_def del: filter_filter)
qed

lemma primaryCount_resetPrimary: "primaryCount (resetPrimary phs) = 0"
  by (simp add: primaryCount_def resetPrimary_def filter_map comp_def)

lemma primaryCount_markPrimary: "primaryCount (markPrimary i phs) \<le> Suc (primaryCount phs)"
  by (induction phs) (auto simp: primaryCount_def)

lemma primaryCount_setSelectedPrimary:
  "primaryCount (setSelectedPrimary x (resetPrimary phs)) \<le> 1"
proof (cases "photosId x (resetPrimary phs)")
  case None
  then show ?thesis by (simp add: setSelectedPrimary_def primaryCount_resetPrimary)
next
  case (Some ph)
  have "primaryCount (markPrimary (photo_id ph) (resetPrimary phs)) \<le> Suc (primaryCount (resetPrimary phs))"
    by (rule primaryCount_markPrimary)
  with Some show ?thesis by (simp add: setSelectedPrimary_def primaryCount_resetPrimary)
qed

lemma list_all_save: "list_all Q xs \<Longrightarrow> Q d \<Longrightarrow> list_all Q (save key d xs)"
  by (induction xs) auto

lemma list_all_findOne: "list_all Q xs \<Longrightarrow> findOne P xs = Some x \<Longrightarrow> Q x"
  by (auto simp: list_all_iff dest: findOne_Some)

lemma photoInvariant_session [simp]: "photoInvariant (s\<lparr>session := c\<rparr>) = photoInvariant s"
  by (simp add: photoInvariant_def)

lemma createHandler_invariant:
  "photoInvariant s \<Longrightarrow> photoInvariant (snd (createHandler now form u s))"
  using primaryCount_newPhotos[of "nextOid s + 1" True "files form"]
  by (simp add: createHandler_def photoInvariant_def Let_def split: option.splits)

lemma editHandler_invariant:
  assumes "photoInvariant s"
  shows "photoInvariant (snd (editHandler form u s))"
proof (cases "findOne (\<lambda>p. userId p = sess_id u) (profiles s)")
  case None
  with assms show ?thesis by (simp add: editHandler_def)
next
  case (Some p)
  let ?new = "newPhotos (nextOid s) (length (photos p) = 0) (files form)"
  from assms Some have old: "primaryCount (photos p) \<le> 1"
    unfolding photoInvariant_def by (rule list_all_findOne)
  have app: "primaryCount (photos p @ ?new) \<le> 1"
  proof (cases "photos p = []")
    case True
    then show ?thesis
      using primaryCount_newPhotos[of "nextOid s" True "files form"]
      by (simp add: primaryCount_append primaryCount_def)
  next
    case False
    then have "primaryCount ?new = 0"
      by (simp add: primaryCount_newPhotos_not_first)
    with old show ?thesis by (simp add: primaryCount_append)
  qed
  let ?p' = "\<lambda>phs. p\<lparr>personalInfo := setPersonalInfo (body_personalInfo form),
                      education := setEducation (body_education form),
                      occupation := setOccupation (body_occupation form),
                      familyInfo := setFamilyInfo (body_familyInfo form),
                      religiousInfo := body_religiousInfo form,
                      photos := phs,
                      preferences := setPreferences (body_preferences form),
                      about := trimSetter (body_about form),
                      expectations := trimSetter (body_expectations form),
                      contactInfo := setContactInfo (body_contactInfo form),
                      status := Submitted,
                      published := False\<rparr>"
  have qa: "primaryCount (photos (?p' (photos p @ ?new))) \<le> 1"
    using app by simp
  have qb: "primaryCount (photos (?p' (photos p))) \<le> 1"
    using old by simp
  from assms have A: "list_all (\<lambda>p. primaryCount (photos p) \<le> 1)
      (save profile_id (?p' (photos p @ ?new)) (profiles s))"
    unfolding photoInvariant_def using qa by (rule list_all_save)
  from assms have B: "list_all (\<lambda>p. primaryCount (photos p) \<le> 1)
      (save profile_id (?p' (photos p)) (profiles s))"
    unfolding photoInvariant_def using qb by (rule list_all_save)
  from assms Some A B show ?thesis
    by (simp add: editHandler_def photoInvariant_def Let_def)
qed

lemma deletePhotoHandler_invariant:
  assumes "photoInvariant s"
  shows "photoInvariant (snd (deletePhotoHandler x u s))"
proof (cases "findOne (\<lambda>p. userId p = sess_id u) (profiles s)")
  case None
  with assms show ?thesis by (simp add: deletePhotoHandler_def)
next
  case (Some p)
  from assms Some have "primaryCount (photos p) \<le> 1"
    unfolding photoInvariant_def by (rule list_all_findOne)
  then have q: "primaryCount (photos (p\<lparr>photos := photosPull x (photos p)\<rparr>)) \<le> 1"
    using primaryCount_photosPull[of x "photos p"] by simp
  from assms have "list_all (\<lambda>p. primaryCount (photos p) \<le> 1)
      (save profile_id (p\<lparr>photos := photosPull x (photos p)\<rparr>) (profiles s))"
    unfolding photoInvariant_def using q by (rule list_all_save)
  with assms Some show ?thesis
    by (simp add: deletePhotoHandler_def photoInvariant_def Let_def split: option.splits)
qed

lemma setPrimaryHandler_invariant:
  assumes "photoInvariant s"
  shows "photoInvariant (snd (setPrimaryHandler x u s))"
proof (cases "findOne (\<lambda>p. userId p = sess_id u) (profiles s)")
  case None
  with assms show ?thesis by (simp add: setPrimaryHandler_def)
next
  case (Some p)
  have q: "primaryCount (photos (p\<lparr>photos := setSelectedPrimary x (resetPrimary (photos p))\<rparr>)) \<le> 1"
    using primaryCount_setSelectedPrimary[of x "photos p"] by simp
  from assms have "list_all (\<lambda>p. primaryCount (photos p) \<le> 1)
      (save profile_id (p\<lparr>photos := setSelectedPrimary x (resetPrimary (photos p))\<rparr>) (profiles s))"
    unfolding photoInvariant_def using q by (rule list_all_save)
  with assms Some show ?thesis
    by (simp add: setPrimaryHandler_def photoInvariant_def Let_def)
qed

lemma owner_route_invariant:
  assumes "photoInvariant s" and "\<And>u. photoInvariant (snd (h u))"
  shows "photoInvariant (snd (isAuthenticated s (\<lambda>u. hasPaid s (h u))))"
  using assms(1,2)
  by (simp add: isAuthenticated_def hasPaid_def split: option.splits)

lemma handleRequest_invariant:
  "photoInvariant s \<Longrightarrow> photoInvariant (handleRequest caller r s)"
proof (cases r)
  case (CreateProfile now form)
  assume "photoInvariant s"
  then have "photoInvariant (s\<lparr>session := caller\<rparr>)" by simp
  then show ?thesis
    unfolding CreateProfile handleRequest.simps createProfile_def
    by (intro owner_route_invariant createHandler_invariant) simp_all
next
  case (EditProfile form)
  assume "photoInvariant s"
  then have "photoInvariant (s\<lparr>session := caller\<rparr>)" by simp
  then show ?thesis
    unfolding EditProfile handleRequest.simps editProfile_def
    by (intro owner_route_invariant editHandler_invariant) simp_all
next
  case (RemovePhoto x)
  assume "photoInvariant s"
  then have "photoInvariant (s\<lparr>session := caller\<rparr>)" by simp
  then show ?thesis
    unfolding RemovePhoto handleRequest.simps removePhoto_def
    by (intro owner_route_invariant deletePhotoHandler_invariant) simp_all
next
  case (SetPrimaryPhoto x)
  assume "photoInvariant s"
  then have "photoInvariant (s\<lparr>session := caller\<rparr>)" by simp
  then show ?thesis
    unfolding SetPrimaryPhoto handleRequest.simps setPrimaryPhoto_def
    by (intro owner_route_invariant setPrimaryHandler_invariant) simp_all
qed

lemma handleAll_invariant:
  "photoInvariant s \<Longrightarrow> photoInvariant (handleAll rs s)"
  by (induction rs arbitrary: s) (auto simp: handleRequest_invariant)

text \<open>
  C2. From a state in which every profile has at most one primary photo (a store
  without profiles is one), every sequence of profile creations, edits, photo
  removals and primary-photo selections, by whatever callers, leads through states
  in which every profile has at most one primary photo: the invariant holds after
  each request of the sequence.
\<close>

theorem photo_invariant_after_each_request:
  assumes "photoInvariant s"
  shows "\<forall>n. photoInvariant (handleAll (take n rs) s)"
  using assms by (simp add: handleAll_invariant)

text \<open>
  The theorem on an empty profile collection: the owner creates a profile with two
  uploads, makes the second photo primary, removes the first and uploads a third.
\<close>

theorem photo_invariant_after_each_request_witness:
  "photoInvariant (sampleState [] [] sampleOwner) \<and>
   (\<forall>n. photoInvariant (handleAll (take n
        [(Some sampleOwner, CreateProfile 5 (sampleForm [\<lparr>path = ''p1'', filename = ''f1''\<rparr>, \<lparr>path = ''p2'', filename = ''f2''\<rparr>])),
         (Some sampleOwner, SetPrimaryPhoto (Some 102)),
         (Some sampleOwner, RemovePhoto (Some 101)),
         (Some sampleOwner, EditProfile (sampleForm [\<lparr>path = ''p3'', filename = ''f3''\<rparr>]))])
        (sampleState [] [] sampleOwner))) \<and>
   map (\<lambda>p. map (\<lambda>ph. (photo_id ph, isPrimary ph)) (photos p))
     (profiles (handleAll
        [(Some sampleOwner, CreateProfile 5 (sampleForm [\<lparr>path = ''p1'', filename = ''f1''\<rparr>, \<lparr>path = ''p2'', filename = ''f2''\<rparr>])),
         (Some sampleOwner, SetPrimaryPhoto (Some 102)),
         (Some sampleOwner, RemovePhoto (Some 101)),
         (Some sampleOwner, EditProfile (sampleForm [\<lparr>path = ''p3'', filename = ''f3''\<rparr>]))]
        (sampleState [] [] sampleOwner)))
   = [[(102, True), (103, False)]]"
proof -
  have h: "photoInvariant (sampleState [] [] sampleOwner)"
    by (simp add: photoInvariant_def sampleState_def)
  have e: "map (\<lambda>p. map (\<lambda>ph. (photo_id ph, isPrimary ph)) (photos p))
     (profiles (handleAll
        [(Some sampleOwner, CreateProfile 5 (sampleForm [\<lparr>path = ''p1'', filename = ''f1''\<rparr>, \<lparr>path = ''p2'', filename = ''f2''\<rparr>])),
         (Some sampleOwner, SetPrimaryPhoto (Some 102)),
         (Some sampleOwner, RemovePhoto (Some 101)),
         (Some sampleOwner, EditProfile (sampleForm [\<lparr>path = ''p3'', filename = ''f3''\<rparr>]))]
        (sampleState [] [] sampleOwner)))
   = [[(102, True), (103, False)]]"
    by code_simp
  from photo_invariant_after_each_request[OF h] h e show ?thesis by blast
qed

section \<open>Selecting the primary photo\<close>

lemma findById_resetPrimary:
  "findById photo_id i (resetPrimary phs) = map_option (\<lambda>ph. ph\<lparr>isPrimary := False\<rparr>) (findById photo_id i phs)"
  by (induction phs) (auto simp: resetPrimary_def findById_Cons findById_Nil)

lemma markPrimary_found:
  "findById photo_id i phs = Some ph \<Longrightarrow> \<not> isPrimary ph \<Longrightarrow>
   findById photo_id i (markPrimary i phs) = Some (ph\<lparr>isPrimary := True\<rparr>) \<and>
   primaryCount (markPrimary i phs) = Suc (primaryCount phs) \<and>
   map photo_id (markPrimary i phs) = map photo_id phs"
  by (induction phs) (auto simp: findById_Cons findById_Nil primaryCount_def split: if_splits)

text \<open>
  When the identifier is that of a photo of the collection, the handler does what C8
  says: the first photo with that identifier is the one primary photo afterwards,
  and the collection keeps its photos in order.
\<close>

lemma setPrimary_present:
  assumes "findById photo_id i phs = Some ph"
  shows "findById photo_id i (setSelectedPrimary (Some i) (resetPrimary phs)) = Some (ph\<lparr>isPrimary := True\<rparr>) \<and>
         primaryCount (setSelectedPrimary (Some i) (resetPrimary phs)) = 1 \<and>
         map photo_id (setSelectedPrimary (Some i) (resetPrimary phs)) = map photo_id phs"
proof -
  from assms have r: "findById photo_id i (resetPrimary phs) = Some (ph\<lparr>isPrimary := False\<rparr>)"
    by (simp add: findById_resetPrimary)
  then have k: "photo_id (ph\<lparr>isPrimary := False\<rparr>) = i"
    by (rule findById_Some_key[THEN conjunct1])
  have "\<not> isPrimary (ph\<lparr>isPrimary := False\<rparr>)" by simp
  with r have m: "findById photo_id i (markPrimary i (resetPrimary phs)) = Some (ph\<lparr>isPrimary := False\<rparr>\<lparr>isPrimary := True\<rparr>) \<and>
   primaryCount (markPrimary i (resetPrimary phs)) = Suc (primaryCount (resetPrimary phs)) \<and>
   map photo_id (markPrimary i (resetPrimary phs)) = map photo_id (resetPrimary phs)"
    by (rule markPrimary_found)
  have "map photo_id (resetPrimary phs) = map photo_id phs"
    by (simp add: resetPrimary_def comp_def)
  with m r k show ?thesis
    by (simp add: setSelectedPrimary_def photosId_def primaryCount_resetPrimary)
qed

text \<open>
  C8, at an identifier that no photo has. The claim asks for a not-found outcome,
  as \<^verbatim>\<open>DELETE /photo/:photoId\<close> gives when \<^verbatim>\<open>photos.id\<close> finds nothing. The
  handler of \<^verbatim>\<open>PUT /photo/:photoId/primary\<close> has no such branch: on a profile
  with photos 11 (primary) and 12, selecting 99 answers with a success and stores
  the profile with no primary photo.
\<close>

theorem setPrimaryPhoto_unknown_id:
  "setPrimaryPhoto (Some 99)
     (sampleState [sampleProfile 10 3 Approved True [samplePhoto 11 True, samplePhoto 12 False] 0] [] sampleOwner)
   = (Json 200 True ''Primary photo updated successfully'',
      sampleState [sampleProfile 10 3 Approved True [samplePhoto 11 False, samplePhoto 12 False] 0] [] sampleOwner)"
  by code_simp

section \<open>Payments\<close>

text \<open>
  C7, as the code has it. For an administrator and an existing payment: a requested
  status other than \<^verbatim>\<open>completed\<close>, \<^verbatim>\<open>failed\<close> and \<^verbatim>\<open>cancelled\<close> (or none) is
  answered with status 400, \<^verbatim>\<open>Invalid status\<close>, in an unchanged state. When the
  payment passes the validation of its schema: with \<^verbatim>\<open>completed\<close>, and an owning
  user who, if there is one, passes the validation of the user schema, the stored
  payment gets that status, the administrator as verifier, the time of the call
  and the notes stripped of leading and trailing white space (the schema declares
  \<^verbatim>\<open>verificationNotes\<close> with \<^verbatim>\<open>trim: true\<close>), and the owning user is stored with
  \<^verbatim>\<open>isPaid\<close> true; with \<^verbatim>\<open>failed\<close> or \<^verbatim>\<open>cancelled\<close> the payment is updated in
  the same way and the user collection is left as it was.
\<close>

theorem verifyPayment_effects:
  assumes "session s = Some u" and "sess_role u = ''admin''"
    and "findById payment_id i (payments s) = Some pay"
  shows "(verify_status body \<noteq> Some ''completed'' \<and> verify_status body \<noteq> Some ''failed'' \<and>
          verify_status body \<noteq> Some ''cancelled'' \<longrightarrow>
            verifyPayment validUser now (Some i) body s = (Json 400 False ''Invalid status'', s)) \<and>
         (verify_status body = Some ''completed'' \<and> validPayment pay \<and>
          (\<forall>usr. findById user_id (pay_userId pay) (users s) = Some usr \<longrightarrow>
                 validUser (usr\<lparr>isPaid := True\<rparr>)) \<longrightarrow>
            (case verifyPayment validUser now (Some i) body s of
               (res, s') \<Rightarrow>
                 res = Json 200 True ''Payment completed successfully'' \<and>
                 findById payment_id i (payments s') =
                   Some (pay\<lparr>pay_status := Completed, verifiedBy := Some (sess_id u),
                            verifiedAt := Some now,
                            verificationNotes := map_option trim (verify_notes body)\<rparr>) \<and>
                 (\<forall>usr. findById user_id (pay_userId pay) (users s) = Some usr \<longrightarrow>
                    findById user_id (pay_userId pay) (users s') = Some (usr\<lparr>isPaid := True\<rparr>)))) \<and>
         (verify_status body = Some ''failed'' \<and> validPayment pay \<longrightarrow>
            (case verifyPayment validUser now (Some i) body s of
               (res, s') \<Rightarrow>
                 res = Json 200 True ''Payment failed successfully'' \<and>
                 findById payment_id i (payments s') =
                   Some (pay\<lparr>pay_status := Failed, verifiedBy := Some (sess_id u),
                            verifiedAt := Some now,
                            verificationNotes := map_option trim (verify_notes body)\<rparr>) \<and>
                 users s' = users s)) \<and>
         (verify_status body = Some ''cancelled'' \<and> validPayment pay \<longrightarrow>
            (case verifyPayment validUser now (Some i) body s of
               (res, s') \<Rightarrow>
                 res = Json 200 True ''Payment cancelled successfully'' \<and>
                 findById payment_id i (payments s') =
                   Some (pay\<lparr>pay_status := Cancelled, verifiedBy := Some (sess_id u),
                            verifiedAt := Some now,
                            verificationNotes := map_option trim (verify_notes body)\<rparr>) \<and>
                 users s' = users s))"
proof -
  have k: "payment_id pay = i"
    using assms(3) by (simp add: findById_Some_key)
  have sv: "findById payment_id i (save payment_id (pay\<lparr>pay_status := st, verifiedBy := Some (sess_id u),
                            verifiedAt := Some now,
                            verificationNotes := map_option trim (verify_notes body)\<rparr>) (payments s))
       = Some (pay\<lparr>pay_status := st, verifiedBy := Some (sess_id u),
                            verifiedAt := Some now,
                            verificationNotes := map_option trim (verify_notes body)\<rparr>)" for st
    using findById_save_same[of payment_id "pay\<lparr>pay_status := st, verifiedBy := Some (sess_id u),
                            verifiedAt := Some now,
                            verificationNotes := map_option trim (verify_notes body)\<rparr>" "payments s" pay]
      assms(3) k by simp
  have us: "findById user_id (pay_userId pay) (save user_id (usr\<lparr>isPaid := True\<rparr>) (users s))
         = Some (usr\<lparr>isPaid := True\<rparr>)"
    if f: "findById user_id (pay_userId pay) (users s) = Some usr" for usr
  proof -
    from f have "user_id usr = pay_userId pay" by (simp add: findById_Some_key)
    with f show ?thesis
      using findById_save_same[of user_id "usr\<lparr>isPaid := True\<rparr>" "users s" usr] by simp
  qed
  have invalid: "verify_status body \<noteq> Some ''completed'' \<and> verify_status body \<noteq> Some ''failed'' \<and>
          verify_status body \<noteq> Some ''cancelled'' \<longrightarrow>
            verifyPayment validUser now (Some i) body s = (Json 400 False ''Invalid status'', s)"
    using assms
    by (simp add: verifyPayment_def isAuthenticated_def isAdmin_def verifyHandler_def requestedStatus_def)
  have completed: "verify_status body = Some ''completed'' \<and> validPayment pay \<and>
          (\<forall>usr. findById user_id (pay_userId pay) (users s) = Some usr \<longrightarrow>
                 validUser (usr\<lparr>isPaid := True\<rparr>)) \<longrightarrow>
            (case verifyPayment validUser now (Some i) body s of
               (res, s') \<Rightarrow>
                 res = Json 200 True ''Payment completed successfully'' \<and>
                 findById payment_id i (payments s') =
                   Some (pay\<lparr>pay_status := Completed, verifiedBy := Some (sess_id u),
                            verifiedAt := Some now,
                            verificationNotes := map_option trim (verify_notes body)\<rparr>) \<and>
                 (\<forall>usr. findById user_id (pay_userId pay) (users s) = Some usr \<longrightarrow>
                    findById user_id (pay_userId pay) (users s') = Some (usr\<lparr>isPaid := True\<rparr>)))"
    using assms sv[of Completed] us
    by (cases "findById user_id (pay_userId pay) (users s)")
       (simp_all add: verifyPayment_def isAuthenticated_def isAdmin_def verifyHandler_def
         requestedStatus_def trimSetter_def asText_def Let_def)
  have failed: "verify_status body = Some ''failed'' \<and> validPayment pay \<longrightarrow>
            (case verifyPayment validUser now (Some i) body s of
               (res, s') \<Rightarrow>
                 res = Json 200 True ''Payment failed successfully'' \<and>
                 findById payment_id i (payments s') =
                   Some (pay\<lparr>pay_status := Failed, verifiedBy := Some (sess_id u),
                            verifiedAt := Some now,
                            verificationNotes := map_option trim (verify_notes body)\<rparr>) \<and>
                 users s' = users s)"
    using assms sv[of Failed]
    by (simp add: verifyPayment_def isAuthenticated_def isAdmin_def verifyHandler_def requestedStatus_def
        trimSetter_def asText_def Let_def)
  have cancelled: "verify_status body = Some ''cancelled'' \<and> validPayment pay \<longrightarrow>
            (case verifyPayment validUser now (Some i) body s of
               (res, s') \<Rightarrow>
                 res = Json 200 True ''Payment cancelled successfully'' \<and>
                 findById payment_id i (payments s') =
                   Some (pay\<lparr>pay_status := Cancelled, verifiedBy := Some (sess_id u),
                            verifiedAt := Some now,
                            verificationNotes := map_option trim (verify_notes body)\<rparr>) \<and>
                 users s' = users s)"
    using assms sv[of Cancelled]
    by (simp add: verifyPayment_def isAuthenticated_def isAdmin_def verifyHandler_def requestedStatus_def
        trimSetter_def asText_def Let_def)
  from invalid completed failed cancelled show ?thesis by blast
qed

text \<open>
  The theorem at a pending payment of user 2, who has not paid: one call for each
  of \<^verbatim>\<open>refunded\<close>, \<^verbatim>\<open>completed\<close>, \<^verbatim>\<open>failed\<close> and \<^verbatim>\<open>cancelled\<close>.
\<close>

theorem verifyPayment_effects_witness:
  "session (sampleState [] [samplePayment 20 2 Pending] sampleAdmin) = Some sampleAdmin \<and>
   sess_role sampleAdmin = ''admin'' \<and>
   findById payment_id 20 (payments (sampleState [] [samplePayment 20 2 Pending] sampleAdmin))
     = Some (samplePayment 20 2 Pending) \<and>
   validPayment (samplePayment 20 2 Pending) \<and>
   verifyPayment sampleValidUser 9 (Some 20) \<lparr>verify_status = Some ''refunded'', verify_notes = None\<rparr>
       (sampleState [] [samplePayment 20 2 Pending] sampleAdmin)
     = (Json 400 False ''Invalid status'', sampleState [] [samplePayment 20 2 Pending] sampleAdmin) \<and>
   map_option isPaid (findById user_id 2 (users (sampleState [] [samplePayment 20 2 Pending] sampleAdmin)))
     = Some False \<and>
   map_option isPaid (findById user_id 2
       (users (snd (verifyPayment sampleValidUser 9 (Some 20) \<lparr>verify_status = Some ''completed'', verify_notes = Some ''ok''\<rparr>
          (sampleState [] [samplePayment 20 2 Pending] sampleAdmin)))))
     = Some True \<and>
   findById payment_id 20
       (payments (snd (verifyPayment sampleValidUser 9 (Some 20) \<lparr>verify_status = Some ''completed'', verify_notes = Some ''ok''\<rparr>
          (sampleState [] [samplePayment 20 2 Pending] sampleAdmin))))
     = Some ((samplePayment 20 2 Pending)\<lparr>pay_status := Completed, verifiedBy := Some 1,
               verifiedAt := Some 9, verificationNotes := Some ''ok''\<rparr>) \<and>
   findById payment_id 20
       (payments (snd (verifyPayment sampleValidUser 9 (Some 20) \<lparr>verify_status = Some ''failed'', verify_notes = None\<rparr>
          (sampleState [] [samplePayment 20 2 Pending] sampleAdmin))))
     = Some ((samplePayment 20 2 Pending)\<lparr>pay_status := Failed, verifiedBy := Some 1,
               verifiedAt := Some 9, verificationNotes := None\<rparr>) \<and>
   users (snd (verifyPayment sampleValidUser 9 (Some 20) \<lparr>verify_status = Some ''failed'', verify_notes = None\<rparr>
          (sampleState [] [samplePayment 20 2 Pending] sampleAdmin)))
     = users (sampleState [] [samplePayment 20 2 Pending] sampleAdmin) \<and>
   users (snd (verifyPayment sampleValidUser 9 (Some 20) \<lparr>verify_status = Some ''cancelled'', verify_notes = None\<rparr>
          (sampleState [] [samplePayment 20 2 Pending] sampleAdmin)))
     = users (sampleState [] [samplePayment 20 2 Pending] sampleAdmin)"
proof -
  let ?st = "sampleState [] [samplePayment 20 2 Pending] sampleAdmin"
  let ?usr = "\<lparr>user_id = 2, role = ''user'', isPaid = False, isActive = True, profileCompleted = False\<rparr>"
  have h1: "session ?st = Some sampleAdmin"
    by (simp add: sampleState_def)
  have h2: "sess_role sampleAdmin = ''admin''"
    by (simp add: sampleAdmin_def)
  have h3: "findById payment_id 20 (payments ?st) = Some (samplePayment 20 2 Pending)"
    by (simp add: sampleState_def findById_Cons samplePayment_def)
  have h4: "validPayment (samplePayment 20 2 Pending)"
    by (rule validPayment_samplePayment)
  have o: "pay_userId (samplePayment 20 2 Pending) = 2"
    by (simp add: samplePayment_def)
  have u: "findById user_id 2 (users ?st) = Some ?usr"
    by (simp add: sampleState_def sampleUsers_def findById_Cons)
  have v: "sampleValidUser (?usr\<lparr>isPaid := True\<rparr>)"
    by (simp add: sampleValidUser_def)
  have a: "sess_id sampleAdmin = 1"
    by (simp add: sampleAdmin_def)
  note t = verifyPayment_effects[OF h1 h2 h3, where now = 9 and validUser = sampleValidUser]
  from t[of "\<lparr>verify_status = Some ''refunded'', verify_notes = None\<rparr>"]
  have r1: "verifyPayment sampleValidUser 9 (Some 20) \<lparr>verify_status = Some ''refunded'', verify_notes = None\<rparr> ?st
     = (Json 400 False ''Invalid status'', ?st)"
    by simp
  from t[of "\<lparr>verify_status = Some ''completed'', verify_notes = Some ''ok''\<rparr>"] o u v a h4
  have r2: "map_option isPaid (findById user_id 2
       (users (snd (verifyPayment sampleValidUser 9 (Some 20) \<lparr>verify_status = Some ''completed'', verify_notes = Some ''ok''\<rparr> ?st))))
     = Some True"
    and r3: "findById payment_id 20
       (payments (snd (verifyPayment sampleValidUser 9 (Some 20) \<lparr>verify_status = Some ''completed'', verify_notes = Some ''ok''\<rparr> ?st)))
     = Some ((samplePayment 20 2 Pending)\<lparr>pay_status := Completed, verifiedBy := Some 1,
               verifiedAt := Some 9, verificationNotes := Some ''ok''\<rparr>)"
    by (simp_all add: case_prod_beta trim_def isWhiteSpace_def)
  from t[of "\<lparr>verify_status = Some ''failed'', verify_notes = None\<rparr>"] h4 a
  have r4: "users (snd (verifyPayment sampleValidUser 9 (Some 20) \<lparr>verify_status = Some ''failed'', verify_notes = None\<rparr> ?st))
     = users ?st"
    and r6: "findById payment_id 20
       (payments (snd (verifyPayment sampleValidUser 9 (Some 20) \<lparr>verify_status = Some ''failed'', verify_notes = None\<rparr> ?st)))
     = Some ((samplePayment 20 2 Pending)\<lparr>pay_status := Failed, verifiedBy := Some 1,
               verifiedAt := Some 9, verificationNotes := None\<rparr>)"
    by (simp_all add: case_prod_beta)
  from t[of "\<lparr>verify_status = Some ''cancelled'', verify_notes = None\<rparr>"] h4
  have r5: "users (snd (verifyPayment sampleValidUser 9 (Some 20) \<lparr>verify_status = Some ''cancelled'', verify_notes = None\<rparr> ?st))
     = users ?st"
    by (simp add: case_prod_beta)
  from u have r0: "map_option isPaid (findById user_id 2 (users ?st)) = Some False"
    by simp
  from h1 h2 h3 h4 r0 r1 r2 r3 r4 r5 r6 show ?thesis by blast
qed

text \<open>
  The notes recorded are not always the notes given: \<^verbatim>\<open>" ok"\<close> is stored as
  \<^verbatim>\<open>"ok"\<close>. And a verification is not applied to every stored payment:
  \<^verbatim>\<open>payment.save()\<close> validates the document, so for a stored payment with the
  amount -5, which the schema rejects, the answer is 500 and nothing is written.
\<close>

theorem verifyPayment_effects_counterexample:
  "map_option verificationNotes
     (findById payment_id 20
        (payments (snd (verifyPayment sampleValidUser 9 (Some 20)
           \<lparr>verify_status = Some ''failed'', verify_notes = Some '' ok''\<rparr>
           (sampleState [] [samplePayment 20 2 Pending] sampleAdmin)))))
     = Some (Some ''ok'') \<and>
   Some (Some ''ok'') \<noteq> Some (Some '' ok'') \<and>
   verifyPayment sampleValidUser 9 (Some 20)
     \<lparr>verify_status = Some ''failed'', verify_notes = None\<rparr>
     (sampleState [] [(samplePayment 20 2 Pending)\<lparr>amount := - 5\<rparr>] sampleAdmin)
   = (Json 500 False ''An error occurred'',
      sampleState [] [(samplePayment 20 2 Pending)\<lparr>amount := - 5\<rparr>] sampleAdmin)"
  by code_simp

text \<open>
  The cancellation route guards the status: its query asks for a pending payment,
  so in a collection with distinct identifiers a payment that is completed, failed
  or cancelled is left exactly as it is.
\<close>

lemma cancelHandler_keeps_settled:
  assumes "distinct (map payment_id (payments s))"
    and "findById payment_id j (payments s) = Some pay"
    and "pay_status pay \<noteq> Pending"
  shows "findById payment_id j (payments (snd (cancelHandler pid u s))) = Some pay"
proof (cases pid)
  case None
  with assms show ?thesis by (simp add: cancelHandler_def)
next
  case (Some i)
  show ?thesis
  proof (cases "findOne (\<lambda>p. payment_id p = i \<and> pay_userId p = sess_id u \<and> pay_status p = Pending) (payments s)")
    case None
    with Some assms show ?thesis by (simp add: cancelHandler_def)
  next
    case q: (Some q)
    then have q': "q \<in> set (payments s)" "payment_id q = i" "pay_status q = Pending"
      by (auto dest: findOne_Some)
    have "i \<noteq> j"
    proof
      assume "i = j"
      with assms(1,2) q' have "pay = q" by (auto dest: findById_unique)
      with q' assms(3) show False by simp
    qed
    with q' have "findById payment_id j (save payment_id (q\<lparr>pay_status := Cancelled\<rparr>) (payments s))
        = findById payment_id j (payments s)"
      by (simp add: findById_save_other)
    with q Some assms show ?thesis by (simp add: cancelHandler_def Let_def)
  qed
qed

text \<open>
  C6, at a completed payment. The claim, like the spec, has the three settled
  statuses as terminal, and the cancellation route keeps them so. The verification
  route has no such guard: it never reads the status of the payment it has loaded.
  An administrator who verifies the completed payment 20 with \<^verbatim>\<open>failed\<close> gets
  a success, and the payment is failed afterwards.
\<close>

theorem verifyPayment_settled_payment:
  "map_option pay_status
     (findById payment_id 20 (payments (sampleState [] [samplePayment 20 2 Completed] sampleAdmin)))
     = Some Completed \<and>
   fst (verifyPayment sampleValidUser 9 (Some 20) \<lparr>verify_status = Some ''failed'', verify_notes = None\<rparr>
          (sampleState [] [samplePayment 20 2 Completed] sampleAdmin))
     = Json 200 True ''Payment failed successfully'' \<and>
   map_option pay_status
     (findById payment_id 20
        (payments (snd (verifyPayment sampleValidUser 9 (Some 20) \<lparr>verify_status = Some ''failed'', verify_notes = None\<rparr>
           (sampleState [] [samplePayment 20 2 Completed] sampleAdmin)))))
     = Some Failed"
  by code_simp

section \<open>The browse page\<close>

text \<open>
  The search of the plain pattern is containment, a decimal numeral parses to its
  number, and outside these the runtime parameters decide.
\<close>

lemma startsWith_prefix: "startsWith c t = prefix c t"
  by (induction c t rule: startsWith.induct) simp_all

lemma search_sublist: "search c t = sublist c t"
  by (induction t) (simp_all add: startsWith_prefix sublist_Cons_right)

lemma digit_char:
  assumes "d < 10"
  shows "isDigit (char_of (48 + d))" and "digitValue (char_of (48 + d)) = int d"
  using assms by (simp_all add: isDigit_def digitValue_def)

lemma decimal_nonempty: "decimal n \<noteq> []"
  by (subst decimal.simps) simp

lemma decimal_digits: "list_all isDigit (decimal n)"
proof (induction n rule: decimal.induct)
  case (1 n)
  show ?case
  proof (cases "n < 10")
    case True
    then show ?thesis
      by (subst decimal.simps) (simp add: digit_char)
  next
    case False
    then have "list_all isDigit (decimal (n div 10))" by (rule "1.IH")
    moreover have "isDigit (char_of (48 + n mod 10))"
      by (rule digit_char) simp
    ultimately show ?thesis
      using False by (subst decimal.simps) simp
  qed
qed

lemma length_decimal: "n < 10 ^ k \<Longrightarrow> 0 < k \<Longrightarrow> length (decimal n) \<le> k"
proof (induction n arbitrary: k rule: decimal.induct)
  case (1 n)
  show ?case
  proof (cases "n < 10")
    case True
    with "1.prems" show ?thesis
      by (subst decimal.simps) simp
  next
    case False
    with "1.prems" obtain j where k: "k = Suc j"
      by (cases k) auto
    have "0 < j"
    proof (rule ccontr)
      assume "\<not> 0 < j"
      with k "1.prems" False show False by simp
    qed
    moreover from "1.prems" k have "n div 10 < 10 ^ j"
      by (simp add: less_mult_imp_div_less mult.commute)
    ultimately have "length (decimal (n div 10)) \<le> j"
      using False by (intro "1.IH")
    with False k show ?thesis
      by (subst decimal.simps) simp
  qed
qed

lemma decimalValue_snoc: "decimalValue (t @ [c]) = 10 * decimalValue t + digitValue c"
  by (simp add: decimalValue_def)

lemma decimalValue_decimal: "decimalValue (decimal n) = int n"
proof (induction n rule: decimal.induct)
  case (1 n)
  show ?case
  proof (cases "n < 10")
    case True
    then show ?thesis
      by (subst decimal.simps) (simp add: decimalValue_def digit_char)
  next
    case False
    then have "decimalValue (decimal (n div 10)) = int (n div 10)" by (rule "1.IH")
    moreover have "digitValue (char_of (48 + n mod 10)) = int (n mod 10)"
      by (rule digit_char) simp
    ultimately have "decimalValue (decimal (n div 10) @ [char_of (48 + n mod 10)]) = int n"
      by (simp add: decimalValue_snoc zdiv_int zmod_int)
    with False show ?thesis
      by (subst decimal.simps) simp
  qed
qed

lemma parseInt_decimal:
  assumes "n < 10 ^ 15"
  shows "parseInt rt (decimal n) = Some (int n)"
proof -
  from assms have "length (decimal n) \<le> 15"
    by (rule length_decimal) simp
  then have "decimalNumeral (decimal n)"
    by (simp add: decimalNumeral_def decimal_nonempty decimal_digits)
  then show ?thesis
    by (simp add: parseInt_def decimal_nonempty decimalValue_decimal)
qed

lemma parseInt_other:
  "t \<noteq> [] \<Longrightarrow> \<not> decimalNumeral t \<Longrightarrow> parseInt rt t = otherParseInt rt t"
  by (simp add: parseInt_def)

lemma regExpI_other: "\<not> plainPattern c \<Longrightarrow> regExpI rt c = otherRegExp rt c"
  by (simp add: regExpI_def)

lemma runtime_samples:
  "parseInt rt ''18'' = Some 18"
  "parseInt rt ''007'' = Some 7"
  "parseInt rt [] = None"
  "map lower ''Lahore Cantt 7'' = ''lahore cantt 7''"
  "toStringJS (QArray [QString ''18'', QString ''30'']) = ''18,30''"
  "toStringJS (QObject [(''$ne'', QString ''female'')]) = ''[object Object]''"
  "decimal 1204 = ''1204''"
  by code_simp+

lemma plain_characters:
  "list_all (\<lambda>x. isUpper x \<or> isLower x \<or> isDigit x \<or> x = CHR '' '')
     ''abcdefghijklmnopqrstuvwxyzABCDEFGHIJKLMNOPQRSTUVWXYZ0123456789 ''"
  by code_simp

lemma plainPattern_text:
  assumes "lettersDigitsSpaces t" and "t \<noteq> []"
  shows "plainPattern t"
proof -
  from plain_characters assms(1)
  have "list_all (\<lambda>x. isUpper x \<or> isLower x \<or> isDigit x \<or> x = CHR '' '') t"
    unfolding lettersDigitsSpaces_def list_all_iff by blast
  with assms(2) show ?thesis by (simp add: plainPattern_def)
qed

lemma genderFilter_asks:
  assumes "asksText (query_gender q) w"
  shows "genderFilter rt q =
           Some (\<lambda>p. case w of None \<Rightarrow> True | Some g \<Rightarrow> gender (personalInfo p) = g)"
  using assms
  by (auto simp: asksText_def genderFilter_def split: option.splits)

lemma cityFilter_asks:
  assumes "asksText (query_city q) w"
    and "\<forall>t. w = Some t \<longrightarrow> lettersDigitsSpaces t"
  shows "cityFilter rt q =
           Some (\<lambda>p. case w of
                        None \<Rightarrow> True
                      | Some t \<Rightarrow> sublist (map lower t) (map lower (city (location (personalInfo p)))))"
proof (cases w)
  case None
  with assms(1) show ?thesis
    by (auto simp: asksText_def cityFilter_def truthy_def)
next
  case (Some t)
  with assms have t: "t \<noteq> []" "query_city q = Some (QString t)" "plainPattern t"
    by (auto simp: asksText_def intro: plainPattern_text)
  with Some show ?thesis
    by (simp add: cityFilter_def truthy_def regExpI_def search_sublist)
qed

lemma ageBound_asks:
  assumes "asksNumber v w"
    and "\<forall>n. w = Some n \<longrightarrow> n < 10 ^ 15"
  shows "ageBound rt v cmp =
           Some (\<lambda>p. case w of None \<Rightarrow> True | Some n \<Rightarrow> cmp (age (personalInfo p)) (int n))"
proof (cases w)
  case None
  with assms(1) show ?thesis
    by (auto simp: asksNumber_def ageBound_def truthy_def)
next
  case (Some n)
  with assms have "v = Some (QString (decimal n))" "n < 10 ^ 15"
    by (auto simp: asksNumber_def)
  with Some show ?thesis
    by (simp add: ageBound_def truthy_def decimal_nonempty parseInt_decimal)
qed

lemma browsePage_asks:
  assumes "asksPage (query_page q) k" and "1 \<le> k" and "k < 10 ^ 15"
  shows "browsePage rt q = int k"
proof -
  have z0: "parseInt rt ''0'' = Some 0"
    by (simp add: parseInt_def decimalNumeral_def decimalValue_def isDigit_def digitValue_def)
  from assms(1) consider
    (given) "query_page q = Some (QString (decimal k))"
    | (none) "k = 1" "query_page q = None"
    | (empty) "k = 1" "query_page q = Some (QString [])"
    | (zero) "k = 1" "query_page q = Some (QString ''0'')"
    by (auto simp: asksPage_def)
  then show ?thesis
  proof cases
    case given
    with assms(2,3) show ?thesis
      by (simp add: browsePage_def parseInt_decimal)
  next
    case none
    then show ?thesis by (simp add: browsePage_def)
  next
    case empty
    then show ?thesis by (simp add: browsePage_def parseInt_def)
  next
    case zero
    then show ?thesis using z0 by (simp add: browsePage_def)
  qed
qed

lemma browseFilter_asks:
  assumes "asks q c k"
    and "\<forall>t. wantCity c = Some t \<longrightarrow> lettersDigitsSpaces t"
    and "\<forall>n. wantMinAge c = Some n \<longrightarrow> n < 10 ^ 15"
    and "\<forall>n. wantMaxAge c = Some n \<longrightarrow> n < 10 ^ 15"
  shows "browseFilter rt q = Some (visible c)"
proof -
  from assms(1) have a:
    "asksText (query_gender q) (wantGender c)" "asksText (query_city q) (wantCity c)"
    "asksNumber (query_minAge q) (wantMinAge c)" "asksNumber (query_maxAge q) (wantMaxAge c)"
    by (simp_all add: asks_def)
  have "browseFilter rt q =
          Some (\<lambda>p. published p \<and> status p = Approved \<and>
                  (case wantGender c of None \<Rightarrow> True | Some g \<Rightarrow> gender (personalInfo p) = g) \<and>
                  (case wantCity c of
                     None \<Rightarrow> True
                   | Some t \<Rightarrow> sublist (map lower t) (map lower (city (location (personalInfo p))))) \<and>
                  (case wantMinAge c of None \<Rightarrow> True | Some n \<Rightarrow> age (personalInfo p) \<ge> int n) \<and>
                  (case wantMaxAge c of None \<Rightarrow> True | Some n \<Rightarrow> age (personalInfo p) \<le> int n))"
    by (simp add: browseFilter_def genderFilter_asks[OF a(1)] cityFilter_asks[OF a(2) assms(2)]
        ageBound_asks[OF a(3) assms(3)] ageBound_asks[OF a(4) assms(4)])
  moreover have "visible c =
          (\<lambda>p. published p \<and> status p = Approved \<and>
                  (case wantGender c of None \<Rightarrow> True | Some g \<Rightarrow> gender (personalInfo p) = g) \<and>
                  (case wantCity c of
                     None \<Rightarrow> True
                   | Some t \<Rightarrow> sublist (map lower t) (map lower (city (location (personalInfo p))))) \<and>
                  (case wantMinAge c of None \<Rightarrow> True | Some n \<Rightarrow> age (personalInfo p) \<ge> int n) \<and>
                  (case wantMaxAge c of None \<Rightarrow> True | Some n \<Rightarrow> age (personalInfo p) \<le> int n))"
    by (rule ext) (simp add: visible_def)
  ultimately show ?thesis by simp
qed

lemma newestFirst_order: "newestFirstOrder (newestFirst ps)"
proof -
  have "sorted (map (\<lambda>p. - createdAt p) (sort_key (\<lambda>p. - createdAt p) ps))"
    by (rule sorted_sort_key)
  then show ?thesis
    by (simp add: newestFirstOrder_def newestFirst_def sorted_map)
qed

lemma mset_newestFirst: "mset (newestFirst ps) = mset ps"
  by (simp add: newestFirst_def)

text \<open>
  C9, as the code has it. Let a query ask for criteria and for page \<open>k\<close>, with
  \<open>k\<close> at least 1, the city, if given, a text of ASCII letters, digits and
  spaces, and the numbers below \<open>10 ^ 15\<close>. Then the browse page shows the block
  of at most twelve profiles that the page number selects (the profiles after the
  first \<open>12 * (k - 1)\<close>) of a list that holds exactly the visible profiles (each
  as often as the collection has it) in the order newest first. This holds
  whatever the runtime parameters are: on such a query the handler does not reach
  them.
\<close>

theorem browse_page_of_visible:
  assumes "asks q c k" and "1 \<le> k" and "k < 10 ^ 15"
    and "\<forall>t. wantCity c = Some t \<longrightarrow> lettersDigitsSpaces t"
    and "\<forall>n. wantMinAge c = Some n \<longrightarrow> n < 10 ^ 15"
    and "\<forall>n. wantMaxAge c = Some n \<longrightarrow> n < 10 ^ 15"
  shows "\<exists>L. mset L = mset (filter (visible c) (profiles s)) \<and>
             newestFirstOrder L \<and>
             browse rt q s = take 12 (drop (12 * (k - 1)) L)"
proof -
  let ?L = "newestFirst (filter (visible c) (profiles s))"
  have f: "browseFilter rt q = Some (visible c)"
    using assms(1,4,5,6) by (rule browseFilter_asks)
  from assms(1) have "asksPage (query_page q) k"
    by (simp add: asks_def)
  then have p: "browsePage rt q = int k"
    using assms(2,3) by (rule browsePage_asks)
  from assms(2) have "nat ((int k - 1) * 12) = 12 * (k - 1)"
    by (simp add: nat_mult_distrib nat_diff_distrib')
  with assms(2) have "browse rt q s = take 12 (drop (12 * (k - 1)) ?L)"
    by (simp add: browse_def Let_def f p)
  moreover have "mset ?L = mset (filter (visible c) (profiles s))"
    by (rule mset_newestFirst)
  moreover have "newestFirstOrder ?L"
    by (rule newestFirst_order)
  ultimately show ?thesis by blast
qed

text \<open>
  The theorem at page 2 of the women in Lahore aged 18 to 30, asked for with the
  city \<^verbatim>\<open>lahore\<close>: of nineteen profiles fourteen are visible, and the page shows
  the two oldest of them.
\<close>

theorem browse_page_of_visible_witness:
  "asks (sampleQuery (Some ''2'') (Some ''female'') (Some ''lahore'') (Some ''18'') (Some ''30'')) \<lparr>wantGender = Some ''female'', wantCity = Some ''lahore'', wantMinAge = Some 18, wantMaxAge = Some 30\<rparr> 2 \<and>
   (1 :: nat) \<le> 2 \<and> (2 :: nat) < 10 ^ 15 \<and>
   lettersDigitsSpaces ''lahore'' \<and>
   (18 :: nat) < 10 ^ 15 \<and> (30 :: nat) < 10 ^ 15 \<and>
   (\<exists>L. mset L = mset (filter (visible \<lparr>wantGender = Some ''female'', wantCity = Some ''lahore'', wantMinAge = Some 18, wantMaxAge = Some 30\<rparr>) (profiles (sampleState
        (sampleProfiles 14 @
         [(sampleProfile 20 20 Approved True [] 50)
            \<lparr>personalInfo := samplePersonalInfo ''male'' ''Lahore'' 25\<rparr>,
          (sampleProfile 21 21 Approved True [] 51)
            \<lparr>personalInfo := samplePersonalInfo ''female'' ''Karachi'' 25\<rparr>,
          (sampleProfile 22 22 Approved True [] 52)
            \<lparr>personalInfo := samplePersonalInfo ''female'' ''Lahore'' 31\<rparr>,
          sampleProfile 23 23 Submitted False [] 53,
          sampleProfile 24 24 Approved False [] 54]) [] sampleOwner))) \<and>
        newestFirstOrder L \<and>
        browse sampleRuntime (sampleQuery (Some ''2'') (Some ''female'') (Some ''lahore'') (Some ''18'') (Some ''30'')) (sampleState
        (sampleProfiles 14 @
         [(sampleProfile 20 20 Approved True [] 50)
            \<lparr>personalInfo := samplePersonalInfo ''male'' ''Lahore'' 25\<rparr>,
          (sampleProfile 21 21 Approved True [] 51)
            \<lparr>personalInfo := samplePersonalInfo ''female'' ''Karachi'' 25\<rparr>,
          (sampleProfile 22 22 Approved True [] 52)
            \<lparr>personalInfo := samplePersonalInfo ''female'' ''Lahore'' 31\<rparr>,
          sampleProfile 23 23 Submitted False [] 53,
          sampleProfile 24 24 Approved False [] 54]) [] sampleOwner) = take 12 (drop (12 * (2 - 1)) L)) \<and>
   map profile_id (filter (visible \<lparr>wantGender = Some ''female'', wantCity = Some ''lahore'', wantMinAge = Some 18, wantMaxAge = Some 30\<rparr>) (profiles (sampleState
        (sampleProfiles 14 @
         [(sampleProfile 20 20 Approved True [] 50)
            \<lparr>personalInfo := samplePersonalInfo ''male'' ''Lahore'' 25\<rparr>,
          (sampleProfile 21 21 Approved True [] 51)
            \<lparr>personalInfo := samplePersonalInfo ''female'' ''Karachi'' 25\<rparr>,
          (sampleProfile 22 22 Approved True [] 52)
            \<lparr>personalInfo := samplePersonalInfo ''female'' ''Lahore'' 31\<rparr>,
          sampleProfile 23 23 Submitted False [] 53,
          sampleProfile 24 24 Approved False [] 54]) [] sampleOwner))) = [0, 1, 2, 3, 4, 5, 6, 7, 8, 9, 10, 11, 12, 13] \<and>
   map profile_id (browse sampleRuntime (sampleQuery (Some ''2'') (Some ''female'') (Some ''lahore'') (Some ''18'') (Some ''30'')) (sampleState
        (sampleProfiles 14 @
         [(sampleProfile 20 20 Approved True [] 50)
            \<lparr>personalInfo := samplePersonalInfo ''male'' ''Lahore'' 25\<rparr>,
          (sampleProfile 21 21 Approved True [] 51)
            \<lparr>personalInfo := samplePersonalInfo ''female'' ''Karachi'' 25\<rparr>,
          (sampleProfile 22 22 Approved True [] 52)
            \<lparr>personalInfo := samplePersonalInfo ''female'' ''Lahore'' 31\<rparr>,
          sampleProfile 23 23 Submitted False [] 53,
          sampleProfile 24 24 Approved False [] 54]) [] sampleOwner)) = [1, 0]"
proof -
  have h1: "asks (sampleQuery (Some ''2'') (Some ''female'') (Some ''lahore'') (Some ''18'') (Some ''30'')) \<lparr>wantGender = Some ''female'', wantCity = Some ''lahore'', wantMinAge = Some 18, wantMaxAge = Some 30\<rparr> 2"
    by code_simp
  have h4: "lettersDigitsSpaces ''lahore''"
    by code_simp
  have h4': "\<forall>t. wantCity \<lparr>wantGender = Some ''female'', wantCity = Some ''lahore'', wantMinAge = Some 18, wantMaxAge = Some 30\<rparr> = Some t \<longrightarrow> lettersDigitsSpaces t"
    using h4 by simp
  have h5: "\<forall>n. wantMinAge \<lparr>wantGender = Some ''female'', wantCity = Some ''lahore'', wantMinAge = Some 18, wantMaxAge = Some 30\<rparr> = Some n \<longrightarrow> n < 10 ^ 15"
    by simp
  have h6: "\<forall>n. wantMaxAge \<lparr>wantGender = Some ''female'', wantCity = Some ''lahore'', wantMinAge = Some 18, wantMaxAge = Some 30\<rparr> = Some n \<longrightarrow> n < 10 ^ 15"
    by simp
  have e1: "map profile_id (filter (visible \<lparr>wantGender = Some ''female'', wantCity = Some ''lahore'', wantMinAge = Some 18, wantMaxAge = Some 30\<rparr>) (profiles (sampleState
        (sampleProfiles 14 @
         [(sampleProfile 20 20 Approved True [] 50)
            \<lparr>personalInfo := samplePersonalInfo ''male'' ''Lahore'' 25\<rparr>,
          (sampleProfile 21 21 Approved True [] 51)
            \<lparr>personalInfo := samplePersonalInfo ''female'' ''Karachi'' 25\<rparr>,
          (sampleProfile 22 22 Approved True [] 52)
            \<lparr>personalInfo := samplePersonalInfo ''female'' ''Lahore'' 31\<rparr>,
          sampleProfile 23 23 Submitted False [] 53,
          sampleProfile 24 24 Approved False [] 54]) [] sampleOwner))) = [0, 1, 2, 3, 4, 5, 6, 7, 8, 9, 10, 11, 12, 13]"
    by code_simp
  have e2: "map profile_id (browse sampleRuntime (sampleQuery (Some ''2'') (Some ''female'') (Some ''lahore'') (Some ''18'') (Some ''30'')) (sampleState
        (sampleProfiles 14 @
         [(sampleProfile 20 20 Approved True [] 50)
            \<lparr>personalInfo := samplePersonalInfo ''male'' ''Lahore'' 25\<rparr>,
          (sampleProfile 21 21 Approved True [] 51)
            \<lparr>personalInfo := samplePersonalInfo ''female'' ''Karachi'' 25\<rparr>,
          (sampleProfile 22 22 Approved True [] 52)
            \<lparr>personalInfo := samplePersonalInfo ''female'' ''Lahore'' 31\<rparr>,
          sampleProfile 23 23 Submitted False [] 53,
          sampleProfile 24 24 Approved False [] 54]) [] sampleOwner)) = [1, 0]"
    by code_simp
  have t: "\<exists>L. mset L = mset (filter (visible \<lparr>wantGender = Some ''female'', wantCity = Some ''lahore'', wantMinAge = Some 18, wantMaxAge = Some 30\<rparr>) (profiles (sampleState
        (sampleProfiles 14 @
         [(sampleProfile 20 20 Approved True [] 50)
            \<lparr>personalInfo := samplePersonalInfo ''male'' ''Lahore'' 25\<rparr>,
          (sampleProfile 21 21 Approved True [] 51)
            \<lparr>personalInfo := samplePersonalInfo ''female'' ''Karachi'' 25\<rparr>,
          (sampleProfile 22 22 Approved True [] 52)
            \<lparr>personalInfo := samplePersonalInfo ''female'' ''Lahore'' 31\<rparr>,
          sampleProfile 23 23 Submitted False [] 53,
          sampleProfile 24 24 Approved False [] 54]) [] sampleOwner))) \<and>
        newestFirstOrder L \<and>
        browse sampleRuntime (sampleQuery (Some ''2'') (Some ''female'') (Some ''lahore'') (Some ''18'') (Some ''30'')) (sampleState
        (sampleProfiles 14 @
         [(sampleProfile 20 20 Approved True [] 50)
            \<lparr>personalInfo := samplePersonalInfo ''male'' ''Lahore'' 25\<rparr>,
          (sampleProfile 21 21 Approved True [] 51)
            \<lparr>personalInfo := samplePersonalInfo ''female'' ''Karachi'' 25\<rparr>,
          (sampleProfile 22 22 Approved True [] 52)
            \<lparr>personalInfo := samplePersonalInfo ''female'' ''Lahore'' 31\<rparr>,
          sampleProfile 23 23 Submitted False [] 53,
          sampleProfile 24 24 Approved False [] 54]) [] sampleOwner) = take 12 (drop (12 * (2 - 1)) L)"
    by (rule browse_page_of_visible[OF h1 _ _ h4' h5 h6]) simp_all
  show ?thesis
    using h1 h4 t e1 e2 by simp
qed

text \<open>
  The page does not hold all matching profiles: of thirteen visible profiles a
  query without filters shows twelve.
\<close>

theorem browse_all_counterexample:
  "length (filter (visible \<lparr>wantGender = None, wantCity = None, wantMinAge = None, wantMaxAge = None\<rparr>)
            (profiles (sampleState (sampleProfiles 13) [] sampleOwner))) = 13 \<and>
   length (browse sampleRuntime (sampleQuery None None None None None)
            (sampleState (sampleProfiles 13) [] sampleOwner)) = 12"
  by code_simp

end
